theory Spec2Isabelle
  imports Complex_Main
begin

section \<open>Keying results and their aggregate\<close>

text \<open>
  Modelled from the spec: the declaration of the enum \<open>SingleKeyingResult\<close> lives in
  \<open>ANIM_keyframing.hh\<close>, which is not part of the sources at hand. The closed set of
  outcome kinds is listed in the data model of the spec; the enumerators below carry the
  names under which \<open>keyframing.cc\<close> uses them, in the order in which
  \<open>generate_reports\<close> visits them, with \<open>SUCCESS\<close> first as the
  \<open>static_assert\<close> in \<open>has_errors\<close> demands.
\<close>

datatype SingleKeyingResult =
    SUCCESS
  | UNKNOWN_FAILURE
  | CANNOT_CREATE_FCURVE
  | FCURVE_NOT_KEYFRAMEABLE
  | NO_KEY_NEEDED
  | UNABLE_TO_INSERT_TO_NLA_STACK
  | ID_NOT_EDITABLE
  | ID_NOT_ANIMATABLE
  | CANNOT_RESOLVE_PATH
  | NO_VALID_LAYER
  | NO_VALID_STRIP
  | NO_VALID_BINDING

text \<open>The cast \<open>int(result)\<close> that indexes the counter array.\<close>

fun int_of_result :: "SingleKeyingResult \<Rightarrow> nat" where
  "int_of_result SUCCESS = 0"
| "int_of_result UNKNOWN_FAILURE = 1"
| "int_of_result CANNOT_CREATE_FCURVE = 2"
| "int_of_result FCURVE_NOT_KEYFRAMEABLE = 3"
| "int_of_result NO_KEY_NEEDED = 4"
| "int_of_result UNABLE_TO_INSERT_TO_NLA_STACK = 5"
| "int_of_result ID_NOT_EDITABLE = 6"
| "int_of_result ID_NOT_ANIMATABLE = 7"
| "int_of_result CANNOT_RESOLVE_PATH = 8"
| "int_of_result NO_VALID_LAYER = 9"
| "int_of_result NO_VALID_STRIP = 10"
| "int_of_result NO_VALID_BINDING = 11"

text \<open>The number of enumerators, which is the size of the counter array.\<close>

definition KEYING_RESULT_MAX :: nat where
  "KEYING_RESULT_MAX = 12"

text \<open>
  \<open>CombinedKeyingResult\<close> has a single member, the array \<open>result_counter\<close> of
  \<open>int\<close> counters, one for each kind. The model is the list of the counters. In the
  definitions of this section the counters are mathematical integers: the code counts
  attempts of one call. The arithmetic of the 32-bit counters, with its wrap-around, is
  written out in the section after this one.
\<close>

type_synonym CombinedKeyingResult = "int list"

text \<open>The constructor: \<open>result_counter.fill(0)\<close>.\<close>

definition CombinedKeyingResult_init :: CombinedKeyingResult where
  "CombinedKeyingResult_init = replicate KEYING_RESULT_MAX 0"

text \<open>\<open>result_counter[int(result)] += count\<close>.\<close>

definition add :: "CombinedKeyingResult \<Rightarrow> SingleKeyingResult \<Rightarrow> int \<Rightarrow> CombinedKeyingResult" where
  "add A r c = A[int_of_result r := A ! int_of_result r + c]"

text \<open>
  The loop \<open>result_counter[i] += other.result_counter[i]\<close> over all indices of the
  array; both arrays have the same, fixed size.
\<close>

definition merge :: "CombinedKeyingResult \<Rightarrow> CombinedKeyingResult \<Rightarrow> CombinedKeyingResult" where
  "merge A B = map2 (+) A B"

definition get_count :: "CombinedKeyingResult \<Rightarrow> SingleKeyingResult \<Rightarrow> int" where
  "get_count A r = A ! int_of_result r"

text \<open>The loop starts at 1 to skip the \<open>SUCCESS\<close> counter.\<close>

definition has_errors :: "CombinedKeyingResult \<Rightarrow> bool" where
  "has_errors A = list_ex (\<lambda>i. A ! i > 0) [1..<length A]"

text \<open>The class invariant of the array type: its size is fixed.\<close>

definition wf_result :: "CombinedKeyingResult \<Rightarrow> bool" where
  "wf_result A = (length A = KEYING_RESULT_MAX)"


section \<open>The counters in the arithmetic of \<open>int\<close>\<close>

text \<open>
  The counters of \<open>result_counter\<close> are of the type \<open>int\<close>, which has 32 bits.
  The definitions \<open>add\<close> and \<open>merge\<close> above compute with mathematical integers:
  they give the counters of the code as long as no sum leaves the range of \<open>int\<close>, as
  in the insertion paths below, which count the attempts of one call. The definitions of
  this section write the arithmetic of the 32-bit counters out: a sum that leaves the
  range of \<open>int\<close> wraps around in two's complement, which is what the compiled code
  does with \<open>+=\<close>.
\<close>

definition int32_range :: "int \<Rightarrow> bool" where
  "int32_range x = (- (2 ^ 31) \<le> x \<and> x < 2 ^ 31)"

definition wrap_int32 :: "int \<Rightarrow> int" where
  "wrap_int32 x = (x + 2 ^ 31) mod 2 ^ 32 - 2 ^ 31"

text \<open>\<open>result_counter[int(result)] += count\<close> on \<open>int\<close>.\<close>

definition add_int32 :: "CombinedKeyingResult \<Rightarrow> SingleKeyingResult \<Rightarrow> int \<Rightarrow> CombinedKeyingResult" where
  "add_int32 A r c = A[int_of_result r := wrap_int32 (A ! int_of_result r + c)]"

text \<open>The loop \<open>result_counter[i] += other.result_counter[i]\<close> on \<open>int\<close>.\<close>

definition merge_int32 :: "CombinedKeyingResult \<Rightarrow> CombinedKeyingResult \<Rightarrow> CombinedKeyingResult" where
  "merge_int32 A B = map2 (\<lambda>a b. wrap_int32 (a + b)) A B"


section \<open>Reports\<close>

datatype eReportType = RPT_INFO | RPT_WARNING | RPT_ERROR

type_synonym Report = "eReportType \<times> string"

type_synonym ReportList = "Report list"

text \<open>\<open>BKE_report\<close> and \<open>BKE_reportf\<close> append one report to the list.\<close>

definition BKE_report :: "ReportList \<Rightarrow> eReportType \<Rightarrow> string \<Rightarrow> ReportList" where
  "BKE_report reports ty msg = reports @ [(ty, msg)]"

text \<open>The decimal digits that the format \<open>{:d}\<close> prints for an \<open>int\<close>.\<close>

function show_nat :: "nat \<Rightarrow> string" where
  "show_nat n =
     (if n < 10 then [''0123456789'' ! n]
      else show_nat (n div 10) @ [''0123456789'' ! (n mod 10)])"
  by pat_completeness auto
termination
  by (relation "measure id") auto

declare show_nat.simps [simp del]

definition show_int :: "int \<Rightarrow> string" where
  "show_int i = (if i < 0 then CHR ''-'' # show_nat (nat (- i)) else show_nat (nat i))"

text \<open>
  The message that \<open>generate_reports\<close> formats for each kind of failure, with the
  count in the place of \<open>{:d}\<close>. The translation macro \<open>RPT_\<close> is taken as the
  identity. There is no message for \<open>SUCCESS\<close>.
\<close>

fun error_text :: "SingleKeyingResult \<Rightarrow> int \<Rightarrow> string" where
  "error_text SUCCESS n = []"
| "error_text UNKNOWN_FAILURE n =
     ''There were '' @ show_int n @ '' keying failures for unknown reasons.''"
| "error_text CANNOT_CREATE_FCURVE n =
     ''Could not create '' @ show_int n @
     '' F-Curve(s). This can happen when only inserting to available F-Curves.''"
| "error_text FCURVE_NOT_KEYFRAMEABLE n =
     show_int n @ '' F-Curve(s) are not keyframeable. They might be locked or sampled.''"
| "error_text NO_KEY_NEEDED n =
     ''Due to the setting 'Only Insert Needed', '' @ show_int n @
     '' keyframe(s) have not been inserted.''"
| "error_text UNABLE_TO_INSERT_TO_NLA_STACK n =
     ''Due to the NLA stack setup, '' @ show_int n @ '' keyframe(s) have not been inserted.''"
| "error_text ID_NOT_EDITABLE n =
     ''Inserting keys on '' @ show_int n @
     '' data-block(s) has been skipped because they are not editable.''"
| "error_text ID_NOT_ANIMATABLE n =
     ''Inserting keys on '' @ show_int n @
     '' data-block(s) has been skipped because they cannot be animated.''"
| "error_text CANNOT_RESOLVE_PATH n =
     ''Inserting keys on '' @ show_int n @
     '' data-block(s) has been skipped because the RNA path wasn't valid for them.''"
| "error_text NO_VALID_LAYER n =
     ''Inserting keys on '' @ show_int n @
     '' data-block(s) has been skipped because there were no layers that could accept the keys.''"
| "error_text NO_VALID_STRIP n =
     ''Inserting keys on '' @ show_int n @
     '' data-block(s) has been skipped because there were no strips that could accept the keys.''"
| "error_text NO_VALID_BINDING n =
     ''Inserting keys on '' @ show_int n @
     '' data-block(s) has been skipped because of missing animation bindings.''"

text \<open>
  One step of the chain of \<open>if\<close> statements of \<open>generate_reports\<close>: the message of
  a kind is appended to \<open>errors\<close> when the count of the kind is positive.
\<close>

definition append_error :: "CombinedKeyingResult \<Rightarrow> SingleKeyingResult \<Rightarrow> string list \<Rightarrow> string list" where
  "append_error A r errors =
     (if get_count A r > 0 then errors @ [error_text r (get_count A r)] else errors)"

text \<open>The vector \<open>errors\<close> after the chain of \<open>if\<close> statements, in the order of the source.\<close>

definition collect_errors :: "CombinedKeyingResult \<Rightarrow> string list" where
  "collect_errors A =
     append_error A NO_VALID_BINDING
      (append_error A NO_VALID_STRIP
       (append_error A NO_VALID_LAYER
        (append_error A CANNOT_RESOLVE_PATH
         (append_error A ID_NOT_ANIMATABLE
          (append_error A ID_NOT_EDITABLE
           (append_error A UNABLE_TO_INSERT_TO_NLA_STACK
            (append_error A NO_KEY_NEEDED
             (append_error A FCURVE_NOT_KEYFRAMEABLE
              (append_error A CANNOT_CREATE_FCURVE
               (append_error A UNKNOWN_FAILURE []))))))))))"

text \<open>The combined message: the header, then each error on a line of its own after a dash.\<close>

definition combined_message :: "string list \<Rightarrow> string" where
  "combined_message errors =
     foldl (\<lambda>error_message error. error_message @ [CHR 0x0A] @ ''- '' @ error)
       ''Inserting keyframes failed:'' errors"

definition generate_reports :: "CombinedKeyingResult \<Rightarrow> ReportList \<Rightarrow> ReportList" where
  "generate_reports A reports =
     (if \<not> has_errors A \<and> get_count A SUCCESS = 0 then
        BKE_report reports RPT_WARNING
          ''No keys have been inserted and no errors have been reported.''
      else
        let errors = collect_errors A in
        if errors = [] then
          BKE_report reports RPT_WARNING ''Encountered unhandled error during keyframing''
        else if length errors = 1 then
          BKE_report reports RPT_ERROR (errors ! 0)
        else
          BKE_report reports RPT_ERROR (combined_message errors))"

text \<open>The kinds of failure, in the order in which \<open>generate_reports\<close> visits them.\<close>

definition error_kinds :: "SingleKeyingResult list" where
  "error_kinds = [UNKNOWN_FAILURE, CANNOT_CREATE_FCURVE, FCURVE_NOT_KEYFRAMEABLE, NO_KEY_NEEDED,
     UNABLE_TO_INSERT_TO_NLA_STACK, ID_NOT_EDITABLE, ID_NOT_ANIMATABLE, CANNOT_RESOLVE_PATH,
     NO_VALID_LAYER, NO_VALID_STRIP, NO_VALID_BINDING]"

text \<open>Counters of an aggregate that was only ever incremented are not negative.\<close>

definition nonneg_counts :: "CombinedKeyingResult \<Rightarrow> bool" where
  "nonneg_counts A = list_all (\<lambda>c. 0 \<le> c) A"


section \<open>F-Curves\<close>

text \<open>
  Times and values are \<open>float\<close> in the source. The model of the insertion paths
  computes with real numbers: it follows the arithmetic that the code writes down and
  leaves the rounding of each operation out. The rounding is written out for the cycle
  remapper, in the section after this one.
\<close>

text \<open>
  A \<open>BezTriple\<close> holds \<open>vec[3][2]\<close>: the left handle, the key and the right
  handle, each as a pair of a time and a value. \<open>vec[1][0]\<close> is the time of the key
  and \<open>vec[1][1]\<close> its value.
\<close>

record BezTriple =
  vec0 :: "real \<times> real"
  vec1 :: "real \<times> real"
  vec2 :: "real \<times> real"

datatype eFCU_Cycle_Type = FCU_CYCLE_NONE | FCU_CYCLE_PERFECT | FCU_CYCLE_OFFSET

datatype eFMod_Cycling_Modes =
    FCM_EXTRAPOLATE_NONE
  | FCM_EXTRAPOLATE_CYCLIC
  | FCM_EXTRAPOLATE_CYCLIC_OFFSET
  | FCM_EXTRAPOLATE_MIRROR

text \<open>
  The data of a cycles modifier. Next to the two extrapolation modes that
  \<open>remap_cyclic_keyframe_location\<close> reads, the record carries the type of cycle that
  the settings of the modifier amount to (see \<open>BKE_fcurve_get_cycle_type\<close> below).
\<close>

record FMod_Cycles =
  before_mode :: eFMod_Cycling_Modes
  after_mode :: eFMod_Cycling_Modes
  cycle_type :: eFCU_Cycle_Type

datatype eFModifier_Types = FMODIFIER_TYPE_CYCLES | FMODIFIER_TYPE_OTHER

record FModifier =
  fmod_type :: eFModifier_Types
  fmod_data :: FMod_Cycles

datatype eFCurve_Flags =
    FCURVE_VISIBLE
  | FCURVE_SELECTED
  | FCURVE_PROTECTED
  | FCURVE_INT_VALUES
  | FCURVE_DISCRETE_VALUES

text \<open>
  The fields of \<open>FCurve\<close> that the code at hand reads or writes. A null array is the
  empty list: \<open>bezt\<close> holds the keyframes and \<open>fpt\<close> the samples of a sampled
  curve. The bit field \<open>flag\<close> is the set of the flags that are set. The fields
  \<open>rna_path\<close>, \<open>array_index\<close> and \<open>flag\<close> carry the prefix \<open>fcu_\<close>, which
  keeps them apart from the parameters of the same names.
\<close>

record FCurve =
  fcu_rna_path :: string
  fcu_array_index :: int
  bezt :: "BezTriple list"
  fpt :: "(real \<times> real) list"
  fcu_flag :: "eFCurve_Flags set"
  modifiers :: "FModifier list"

text \<open>\<open>totvert\<close> counts the entries of the array in use.\<close>

definition totvert :: "FCurve \<Rightarrow> nat" where
  "totvert fcu = (if bezt fcu \<noteq> [] then length (bezt fcu) else length (fpt fcu))"

text \<open>
  Modelled from the spec: \<open>BKE_fcurve_is_keyframable\<close> is not part of the sources at
  hand. The spec gives a curve a protected or locked state and a keyframeable predicate
  that is false when the curve is sampled or locked.
\<close>

definition BKE_fcurve_is_protected :: "FCurve \<Rightarrow> bool" where
  "BKE_fcurve_is_protected fcu = (FCURVE_PROTECTED \<in> fcu_flag fcu)"

definition BKE_fcurve_is_keyframable :: "FCurve \<Rightarrow> bool" where
  "BKE_fcurve_is_keyframable fcu = (\<not> (fpt fcu \<noteq> [] \<or> BKE_fcurve_is_protected fcu))"

text \<open>
  Modelled from the spec: \<open>BKE_fcurve_get_cycle_type\<close> is not part of the sources at
  hand. By the spec a curve that carries a cycle modifier has a cycle type (none, regular
  or offset-accumulating), and a curve without one is not cyclic. How the type follows
  from the settings of the modifier is not described, so the data of the modifier carries
  it. The modifier in question is the first one of the curve, the one whose data
  \<open>remap_cyclic_keyframe_location\<close> reads.
\<close>

definition BKE_fcurve_get_cycle_type :: "FCurve \<Rightarrow> eFCU_Cycle_Type" where
  "BKE_fcurve_get_cycle_type fcu =
     (case modifiers fcu of
        [] \<Rightarrow> FCU_CYCLE_NONE
      | fcm # _ \<Rightarrow>
          if fmod_type fcm = FMODIFIER_TYPE_CYCLES then cycle_type (fmod_data fcm)
          else FCU_CYCLE_NONE)"

text \<open>
  \<open>remap_cyclic_keyframe_location\<close>: the returned triple is the type of the cycle and
  the contents of \<open>*px\<close> and \<open>*py\<close> after the call. The data of the first modifier
  is read only when the type is \<open>FCU_CYCLE_OFFSET\<close>, which a curve without modifiers
  does not have. The arithmetic is exact here.
\<close>

definition remap_cyclic_keyframe_location ::
    "FCurve \<Rightarrow> real \<Rightarrow> real \<Rightarrow> eFCU_Cycle_Type \<times> real \<times> real" where
  "remap_cyclic_keyframe_location fcu px py =
     (if totvert fcu < 2 \<or> bezt fcu = [] then (FCU_CYCLE_NONE, px, py)
      else
        let type = BKE_fcurve_get_cycle_type fcu in
        if type = FCU_CYCLE_NONE then (FCU_CYCLE_NONE, px, py)
        else
          let first = bezt fcu ! 0;
              last = bezt fcu ! (totvert fcu - 1);
              start = fst (vec1 first);
              end = fst (vec1 last)
          in
          if start \<ge> end then (FCU_CYCLE_NONE, px, py)
          else if px < start \<or> px > end then
            let period = end - start;
                step = real_of_int \<lfloor>(px - start) / period\<rfloor>;
                px' = px - step * period
            in
            if type = FCU_CYCLE_OFFSET then
              (case modifiers fcu of
                 [] \<Rightarrow> (type, px', py)
               | fcm # _ \<Rightarrow>
                   let mode = (if step \<ge> 0 then after_mode (fmod_data fcm)
                               else before_mode (fmod_data fcm))
                   in
                   if mode = FCM_EXTRAPOLATE_CYCLIC_OFFSET then
                     (type, px', py - step * (snd (vec1 last) - snd (vec1 first)))
                   else (type, px', py))
            else (type, px', py)
          else (type, px, py))"


section \<open>The cycle remapper in the arithmetic of \<open>float\<close>\<close>

text \<open>
  \<open>remap_cyclic_keyframe_location\<close> computes with \<open>float\<close>, the binary32 format of
  IEEE 754: 24 bits of precision, exponents from -126 to 127, subnormal numbers below
  \<open>2 ^ -126\<close>, two infinities and NaN. The definition above, which the model of
  \<open>insert_keyframe_value\<close> uses, leaves the rounding out. This section writes it out:
  every operation gives the exact result rounded to the nearest value of the format, a
  tie going to the value with the even significand, as the code does when each operation
  is evaluated in \<open>float\<close>.

  A value of the format is a real number, an infinity or NaN. The sign of a zero is not
  represented: the two zeros of the format compare equal, and they differ only as
  divisors, where \<open>float_div\<close> takes a zero for the positive one. The remapper divides
  by the period only, the difference of two different values of the format, which is not
  zero.
\<close>

datatype float32 = Finite real | PlusInfinity | MinusInfinity | NaN

text \<open>The power of two with an integer exponent.\<close>

definition pow2 :: "int \<Rightarrow> real" where
  "pow2 e = (if 0 \<le> e then 2 ^ nat e else 1 / 2 ^ nat (- e))"

text \<open>
  The exponent of the binade of \<open>x\<close>: the largest \<open>e\<close> from -126 to 127 with
  \<open>2 ^ e \<le> x\<close>, and -126, the smallest exponent of the format, for the subnormal
  numbers and zero. \<open>binade x k\<close> looks for it from \<open>k - 126\<close> downwards.
\<close>

fun binade :: "real \<Rightarrow> nat \<Rightarrow> int" where
  "binade x 0 = - 126"
| "binade x (Suc k) =
     (if pow2 (int (Suc k) - 126) \<le> x then int (Suc k) - 126 else binade x k)"

definition exponent32 :: "real \<Rightarrow> int" where
  "exponent32 x = binade \<bar>x\<bar> 253"

text \<open>The nearest integer, a tie going to the even one.\<close>

definition round_half_even :: "real \<Rightarrow> int" where
  "round_half_even y =
     (let f = \<lfloor>y\<rfloor>; d = y - real_of_int f in
      if d < 1 / 2 then f
      else if 1 / 2 < d then f + 1
      else if even f then f else f + 1)"

text \<open>
  Rounding to the format. The values of the binade with the exponent \<open>e\<close> are the
  multiples of \<open>2 ^ (e - 23)\<close>. A number whose magnitude reaches
  \<open>2 ^ 128 - 2 ^ 103\<close>, half a step above the largest finite value, rounds to an
  infinity.
\<close>

definition round_binary32 :: "real \<Rightarrow> float32" where
  "round_binary32 x =
     (if 2 ^ 128 - 2 ^ 103 \<le> \<bar>x\<bar> then (if 0 < x then PlusInfinity else MinusInfinity)
      else
        let q = pow2 (exponent32 x - 23) in
        Finite (real_of_int (round_half_even (x / q)) * q))"

text \<open>
  The operations of the format that the remapper uses. An operation with a NaN operand
  gives NaN, and so do the difference of two infinities of the same sign, the product of
  an infinity and zero, the quotient of two infinities and the quotient of two zeros.
\<close>

fun float_sub :: "float32 \<Rightarrow> float32 \<Rightarrow> float32" where
  "float_sub (Finite x) (Finite y) = round_binary32 (x - y)"
| "float_sub (Finite x) PlusInfinity = MinusInfinity"
| "float_sub (Finite x) MinusInfinity = PlusInfinity"
| "float_sub PlusInfinity (Finite y) = PlusInfinity"
| "float_sub PlusInfinity MinusInfinity = PlusInfinity"
| "float_sub MinusInfinity (Finite y) = MinusInfinity"
| "float_sub MinusInfinity PlusInfinity = MinusInfinity"
| "float_sub a b = NaN"

fun float_mul :: "float32 \<Rightarrow> float32 \<Rightarrow> float32" where
  "float_mul (Finite x) (Finite y) = round_binary32 (x * y)"
| "float_mul (Finite x) PlusInfinity =
     (if x = 0 then NaN else if 0 < x then PlusInfinity else MinusInfinity)"
| "float_mul (Finite x) MinusInfinity =
     (if x = 0 then NaN else if 0 < x then MinusInfinity else PlusInfinity)"
| "float_mul PlusInfinity (Finite y) =
     (if y = 0 then NaN else if 0 < y then PlusInfinity else MinusInfinity)"
| "float_mul MinusInfinity (Finite y) =
     (if y = 0 then NaN else if 0 < y then MinusInfinity else PlusInfinity)"
| "float_mul PlusInfinity PlusInfinity = PlusInfinity"
| "float_mul PlusInfinity MinusInfinity = MinusInfinity"
| "float_mul MinusInfinity PlusInfinity = MinusInfinity"
| "float_mul MinusInfinity MinusInfinity = PlusInfinity"
| "float_mul a b = NaN"

fun float_div :: "float32 \<Rightarrow> float32 \<Rightarrow> float32" where
  "float_div (Finite x) (Finite y) =
     (if y = 0 then (if x = 0 then NaN else if 0 < x then PlusInfinity else MinusInfinity)
      else round_binary32 (x / y))"
| "float_div (Finite x) PlusInfinity = Finite 0"
| "float_div (Finite x) MinusInfinity = Finite 0"
| "float_div PlusInfinity (Finite y) = (if 0 \<le> y then PlusInfinity else MinusInfinity)"
| "float_div MinusInfinity (Finite y) = (if 0 \<le> y then MinusInfinity else PlusInfinity)"
| "float_div a b = NaN"

text \<open>\<open>floorf\<close>: the floor of a value of the format is a value of the format.\<close>

fun floorf :: "float32 \<Rightarrow> float32" where
  "floorf (Finite x) = Finite (real_of_int \<lfloor>x\<rfloor>)"
| "floorf a = a"

text \<open>The comparisons \<open><\<close>, \<open>>=\<close> and \<open>>\<close>; each is false when an operand is NaN.\<close>

fun float_lt :: "float32 \<Rightarrow> float32 \<Rightarrow> bool" where
  "float_lt (Finite x) (Finite y) = (x < y)"
| "float_lt (Finite x) PlusInfinity = True"
| "float_lt MinusInfinity (Finite y) = True"
| "float_lt MinusInfinity PlusInfinity = True"
| "float_lt a b = False"

fun float_ge :: "float32 \<Rightarrow> float32 \<Rightarrow> bool" where
  "float_ge (Finite x) (Finite y) = (x \<ge> y)"
| "float_ge (Finite x) MinusInfinity = True"
| "float_ge PlusInfinity (Finite y) = True"
| "float_ge PlusInfinity PlusInfinity = True"
| "float_ge PlusInfinity MinusInfinity = True"
| "float_ge MinusInfinity MinusInfinity = True"
| "float_ge a b = False"

definition float_gt :: "float32 \<Rightarrow> float32 \<Rightarrow> bool" where
  "float_gt a b = float_lt b a"

text \<open>
  \<open>remap_cyclic_keyframe_location\<close> in this arithmetic, line by line as above. The
  times and values of the keyframes of a curve are finite values of the format;
  \<open>*px\<close> and \<open>*py\<close> are any values of the format.
\<close>

definition remap_cyclic_keyframe_location_float ::
    "FCurve \<Rightarrow> float32 \<Rightarrow> float32 \<Rightarrow> eFCU_Cycle_Type \<times> float32 \<times> float32" where
  "remap_cyclic_keyframe_location_float fcu px py =
     (if totvert fcu < 2 \<or> bezt fcu = [] then (FCU_CYCLE_NONE, px, py)
      else
        let type = BKE_fcurve_get_cycle_type fcu in
        if type = FCU_CYCLE_NONE then (FCU_CYCLE_NONE, px, py)
        else
          let first = bezt fcu ! 0;
              last = bezt fcu ! (totvert fcu - 1);
              start = Finite (fst (vec1 first));
              end = Finite (fst (vec1 last))
          in
          if float_ge start end then (FCU_CYCLE_NONE, px, py)
          else if float_lt px start \<or> float_gt px end then
            let period = float_sub end start;
                step = floorf (float_div (float_sub px start) period);
                px' = float_sub px (float_mul step period)
            in
            if type = FCU_CYCLE_OFFSET then
              (case modifiers fcu of
                 [] \<Rightarrow> (type, px', py)
               | fcm # _ \<Rightarrow>
                   let mode = (if float_ge step (Finite 0) then after_mode (fmod_data fcm)
                               else before_mode (fmod_data fcm))
                   in
                   if mode = FCM_EXTRAPOLATE_CYCLIC_OFFSET then
                     (type, px',
                      float_sub py
                        (float_mul step
                           (float_sub (Finite (snd (vec1 last))) (Finite (snd (vec1 first))))))
                   else (type, px', py))
            else (type, px', py)
          else (type, px, py))"


section \<open>Writing a keyframe into a curve\<close>

datatype eInsertKeyFlag =
    INSERTKEY_NEEDED
  | INSERTKEY_MATRIX
  | INSERTKEY_FAST
  | INSERTKEY_REPLACE
  | INSERTKEY_NO_USERPREF
  | INSERTKEY_OVERWRITE_FULL
  | INSERTKEY_AVAILABLE
  | INSERTKEY_CYCLE_AWARE

text \<open>
  The bit field \<open>eInsertKeyFlags\<close> is the set of the flags that are set;
  \<open>INSERTKEY_NOFLAGS\<close> is the empty set.
\<close>

type_synonym eInsertKeyFlags = "eInsertKeyFlag set"

datatype eBezTriple_KeyframeType =
    BEZT_KEYTYPE_KEYFRAME
  | BEZT_KEYTYPE_EXTREME
  | BEZT_KEYTYPE_BREAKDOWN
  | BEZT_KEYTYPE_JITTER
  | BEZT_KEYTYPE_MOVEHOLD

datatype eBezTriple_Handle = HD_FREE | HD_AUTO | HD_VECT | HD_ALIGN | HD_AUTO_ANIM

datatype eBezTriple_Interpolation = BEZT_IPO_CONST | BEZT_IPO_LIN | BEZT_IPO_BEZ

record KeyframeSettings =
  keyframe_type :: eBezTriple_KeyframeType
  handle :: eBezTriple_Handle
  interpolation :: eBezTriple_Interpolation

text \<open>
  The operations on curves that the code calls and that are not part of the sources at
  hand are parameters of the model: the defaults for new keyframes
  (\<open>get_keyframe_settings\<close>), the insertion of a point into a curve
  (\<open>insert_vert_fcurve\<close>, which returns its result and the curve after the call) and
  the cycles modifier that \<open>add_fmodifier\<close> creates.
\<close>

record curve_ops =
  get_keyframe_settings :: "bool \<Rightarrow> KeyframeSettings"
  insert_vert_fcurve ::
    "FCurve \<Rightarrow> real \<times> real \<Rightarrow> KeyframeSettings \<Rightarrow> eInsertKeyFlags \<Rightarrow> SingleKeyingResult \<times> FCurve"
  new_cycles_modifier :: FModifier

text \<open>
  \<open>insert_keyframe_value\<close>: the result code and the curve after the call.
\<close>

definition insert_keyframe_value ::
    "curve_ops \<Rightarrow> FCurve \<Rightarrow> real \<Rightarrow> real \<Rightarrow> eBezTriple_KeyframeType \<Rightarrow> eInsertKeyFlags
      \<Rightarrow> SingleKeyingResult \<times> FCurve" where
  "insert_keyframe_value ops fcu cfra curval keytype flag =
     (if \<not> BKE_fcurve_is_keyframable fcu then (FCURVE_NOT_KEYFRAMEABLE, fcu)
      else
        let (cfra', curval', flag') =
              (if INSERTKEY_CYCLE_AWARE \<in> flag then
                 (case remap_cyclic_keyframe_location fcu cfra curval of
                    (type, px, py) \<Rightarrow>
                      if type \<noteq> FCU_CYCLE_PERFECT
                      then (px, py, flag - {INSERTKEY_CYCLE_AWARE})
                      else (px, py, flag))
               else (cfra, curval, flag));
            settings = (get_keyframe_settings ops (INSERTKEY_NO_USERPREF \<notin> flag'))
                         \<lparr>keyframe_type := keytype\<rparr>
        in insert_vert_fcurve ops fcu (cfra', curval') settings flag')"


section \<open>Actions, animated entities and the legacy channel resolver\<close>

text \<open>
  A \<open>bAction\<close> holds the legacy list \<open>curves\<close> and its frame range. The layers and
  bindings of a layered action are not described by the sources at hand; they are the
  component \<open>layered\<close>, of a type that is left open. \<open>act_cyclic\<close> is what
  \<open>BKE_action_is_cyclic\<close> reports for the action.
\<close>

record 'l bAction =
  curves :: "FCurve list"
  frame_start :: real
  frame_end :: real
  act_cyclic :: bool
  layered :: 'l

definition BKE_action_is_cyclic :: "'l bAction \<Rightarrow> bool" where
  "BKE_action_is_cyclic act = act_cyclic act"

text \<open>
  The discriminators for legacy and layered actions are declared in \<open>ANIM_action.hh\<close>,
  and their bodies are not part of the sources at hand: they are parameters of the model.
  An empty action is valid as both.
\<close>

record 'l action_kinds =
  is_action_legacy :: "'l bAction \<Rightarrow> bool"
  is_action_layered :: "'l bAction \<Rightarrow> bool"

record 'l AnimData =
  adt_action :: "'l bAction option"
  adt_binding_handle :: int

text \<open>
  An animated entity: whether it is editable, whether its type can carry animation data,
  and its animation data, if it has any.
\<close>

record 'l ID =
  id_name :: string
  id_editable :: bool
  id_animatable :: bool
  id_adt :: "'l AnimData option"

definition BKE_id_is_editable :: "'l ID \<Rightarrow> bool" where
  "BKE_id_is_editable animated_id = id_editable animated_id"

text \<open>
  Modelled from the spec: \<open>BKE_animdata_ensure_id\<close> and \<open>id_action_ensure\<close> are not
  part of the sources at hand. By the spec the entity gets an animation-data attachment
  unless its type cannot carry one, and an action is attached to it, an empty one being
  created when there is none. The functions return the entity after the call; the new,
  empty action is an argument.
\<close>

definition BKE_animdata_ensure_id :: "'l ID \<Rightarrow> 'l AnimData option \<times> 'l ID" where
  "BKE_animdata_ensure_id animated_id =
     (if \<not> id_animatable animated_id then (None, animated_id)
      else
        (case id_adt animated_id of
           Some adt \<Rightarrow> (Some adt, animated_id)
         | None \<Rightarrow>
             let adt = \<lparr>adt_action = None, adt_binding_handle = 0\<rparr>
             in (Some adt, animated_id\<lparr>id_adt := Some adt\<rparr>)))"

definition id_action_ensure :: "'l bAction \<Rightarrow> 'l ID \<Rightarrow> 'l bAction option \<times> 'l ID" where
  "id_action_ensure new_action animated_id =
     (case BKE_animdata_ensure_id animated_id of
        (None, animated_id') \<Rightarrow> (None, animated_id')
      | (Some adt, animated_id') \<Rightarrow>
          (case adt_action adt of
             Some act \<Rightarrow> (Some act, animated_id')
           | None \<Rightarrow> (Some new_action, animated_id'\<lparr>id_adt := Some (adt\<lparr>adt_action := Some new_action\<rparr>)\<rparr>)))"

text \<open>
  The action that the code holds by pointer is the action of the animation data of the
  entity; the model stores the action back after it has worked on it.
\<close>

definition store_action :: "'l ID \<Rightarrow> 'l bAction \<Rightarrow> 'l ID" where
  "store_action animated_id act =
     (case id_adt animated_id of
        None \<Rightarrow> animated_id
      | Some adt \<Rightarrow> animated_id\<lparr>id_adt := Some (adt\<lparr>adt_action := Some act\<rparr>)\<rparr>)"

definition key_insertion_may_create_fcurve :: "eInsertKeyFlags \<Rightarrow> bool" where
  "key_insertion_may_create_fcurve insert_key_flags =
     (insert_key_flags \<inter> {INSERTKEY_REPLACE, INSERTKEY_AVAILABLE} = {})"

text \<open>
  Modelled from the spec: \<open>action_fcurve_find\<close> and \<open>action_fcurve_ensure\<close> are not
  part of the sources at hand. By the spec \<open>find\<close> returns the existing curve for a
  pair of a path and an index, or none, and never creates; \<open>ensure\<close> returns the curve
  for the pair and creates it, with zero points, when it does not exist. A pointer to a
  curve of the action is its position in \<open>curves\<close>. The group label only clusters
  curves for display and is not modelled.
\<close>

fun find_curve :: "FCurve list \<Rightarrow> string \<Rightarrow> int \<Rightarrow> nat \<Rightarrow> nat option" where
  "find_curve [] path index pos = None"
| "find_curve (fcu # fcus) path index pos =
     (if fcu_rna_path fcu = path \<and> fcu_array_index fcu = index then Some pos
      else find_curve fcus path index (Suc pos))"

definition action_fcurve_find :: "'l bAction \<Rightarrow> string \<Rightarrow> int \<Rightarrow> nat option" where
  "action_fcurve_find act rna_path array_index = find_curve (curves act) rna_path array_index 0"

definition action_fcurve_ensure ::
    "'l bAction \<Rightarrow> string option \<Rightarrow> string \<Rightarrow> int \<Rightarrow> nat option \<times> 'l bAction" where
  "action_fcurve_ensure act grp rna_path array_index =
     (case action_fcurve_find act rna_path array_index of
        Some pos \<Rightarrow> (Some pos, act)
      | None \<Rightarrow>
          (Some (length (curves act)),
           act\<lparr>curves := curves act @
             [\<lparr>fcu_rna_path = rna_path, fcu_array_index = array_index, bezt = [], fpt = [],
               fcu_flag = {}, modifiers = []\<rparr>]\<rparr>))"


section \<open>Properties, their values and the NLA remapping\<close>

datatype PropertyType =
    PROP_BOOLEAN
  | PROP_INT
  | PROP_FLOAT
  | PROP_STRING
  | PROP_ENUM
  | PROP_POINTER
  | PROP_COLLECTION

text \<open>
  The property system and the NLA system are outside of the sources at hand and are
  parameters of the model. A value of type \<open>'p\<close> is a resolved property: the pair of
  the pointer and the property that \<open>RNA_path_resolve_property\<close> returns. The three
  functions \<open>nla_remap_\<close>... describe \<open>BKE_animsys_nla_remap_keyframe_values\<close> for
  the NLA context of the call: given the property, the values, the requested index and
  whether the caller asks for the flag that forces all channels (\<open>r_force_all\<close> is not
  null), the remapped value and the success bit of each position, and that flag.
\<close>

record 'p rna_ops =
  RNA_path_resolve_property :: "string \<Rightarrow> 'p option"
  RNA_path_from_ID_to_property :: "'p \<Rightarrow> string option"
  RNA_property_type :: "'p \<Rightarrow> PropertyType"
  RNA_property_ui_name :: "'p \<Rightarrow> string"
  get_rna_values :: "'p \<Rightarrow> real list"
  visualkey_can_use :: "'p \<Rightarrow> bool"
  visualkey_get_values :: "'p \<Rightarrow> real list"
  nla_remap_value :: "'p \<Rightarrow> real list \<Rightarrow> int \<Rightarrow> bool \<Rightarrow> nat \<Rightarrow> real"
  nla_remap_success :: "'p \<Rightarrow> real list \<Rightarrow> int \<Rightarrow> bool \<Rightarrow> nat \<Rightarrow> bool"
  nla_remap_force_all :: "'p \<Rightarrow> real list \<Rightarrow> int \<Rightarrow> bool \<Rightarrow> bool"
  BKE_nla_tweakedit_remap :: "real \<Rightarrow> real"

definition get_keyframe_values :: "'p rna_ops \<Rightarrow> 'p \<Rightarrow> bool \<Rightarrow> real list" where
  "get_keyframe_values rna prop visual_key =
     (if visual_key \<and> visualkey_can_use rna prop then visualkey_get_values rna prop
      else get_rna_values rna prop)"

text \<open>
  The call of \<open>BKE_animsys_nla_remap_keyframe_values\<close>: the values after the call, the
  flag \<open>force_all\<close> (which a caller that passes a null pointer does not see) and the
  bit vector \<open>successful_remaps\<close>, which the caller creates with one bit for each value.
\<close>

definition BKE_animsys_nla_remap_keyframe_values ::
    "'p rna_ops \<Rightarrow> 'p \<Rightarrow> real list \<Rightarrow> int \<Rightarrow> bool \<Rightarrow> real list \<times> bool \<times> bool list" where
  "BKE_animsys_nla_remap_keyframe_values rna prop values index r_force_all_given =
     (map (nla_remap_value rna prop values index r_force_all_given) [0..<length values],
      nla_remap_force_all rna prop values index r_force_all_given,
      map (nla_remap_success rna prop values index r_force_all_given) [0..<length values])"

definition update_autoflags_fcurve_direct :: "FCurve \<Rightarrow> PropertyType \<Rightarrow> FCurve" where
  "update_autoflags_fcurve_direct fcu prop_type =
     (let cleared = fcu_flag fcu - {FCURVE_INT_VALUES, FCURVE_DISCRETE_VALUES} in
      case prop_type of
        PROP_FLOAT \<Rightarrow> fcu\<lparr>fcu_flag := cleared\<rparr>
      | PROP_INT \<Rightarrow> fcu\<lparr>fcu_flag := cleared \<union> {FCURVE_INT_VALUES}\<rparr>
      | _ \<Rightarrow> fcu\<lparr>fcu_flag := cleared \<union> {FCURVE_DISCRETE_VALUES, FCURVE_INT_VALUES}\<rparr>)"

text \<open>The three time coordinates of a keyframe moved by an offset.\<close>

definition shift_bezt :: "BezTriple \<Rightarrow> real \<Rightarrow> BezTriple" where
  "shift_bezt b d =
     b\<lparr>vec0 := (fst (vec0 b) + d, snd (vec0 b)),
       vec1 := (fst (vec1 b) + d, snd (vec1 b)),
       vec2 := (fst (vec2 b) + d, snd (vec2 b))\<rparr>"

definition make_new_fcurve_cyclic :: "curve_ops \<Rightarrow> FCurve \<Rightarrow> real \<times> real \<Rightarrow> FCurve" where
  "make_new_fcurve_cyclic ops fcu action_range =
     (if totvert fcu \<noteq> 1 \<or> bezt fcu = [] then fcu
      else
        let period = snd action_range - fst action_range in
        if period < 0.1 then fcu
        else
          let frame_offset = fst (vec1 (bezt fcu ! 0)) - fst action_range;
              fix = real_of_int \<lfloor>frame_offset / period\<rfloor> * period;
              b0 = shift_bezt (bezt fcu ! 0) (- fix);
              b1 = shift_bezt b0 period
          in fcu\<lparr>bezt := [b0, b1],
                 modifiers := (if modifiers fcu = [] then [new_cycles_modifier ops]
                               else modifiers fcu)\<rparr>)"


section \<open>Failures, pointers and the default group of a channel\<close>

text \<open>
  What the model returns in the place of a result when the code reads outside of an
  array, runs into an assertion that does not hold, or follows a null pointer. The
  assertions of the code (\<open>BLI_assert\<close>) are branches of the model; an assertion that
  a pointer is not null has no branch where the model holds a value in the place of the
  pointer.
\<close>

datatype failure = Index_out_of_bounds | Assertion_failed | Null_dereference

datatype StructRNA = RNA_PoseBone | RNA_Object | RNA_OtherStruct

text \<open>
  A \<open>PointerRNA\<close>, as far as the code at hand looks at it: the name of the owner, or
  none for a null \<open>owner_id\<close>, whether \<open>data\<close> is null, the type of the struct
  and, for a pose bone, the name of the pose channel that \<open>data\<close> points to.
\<close>

record PointerRNA =
  owner_id :: "string option"
  data_is_null :: bool
  struct_type :: StructRNA
  pose_channel_name :: string

text \<open>\<open>StringRef::find\<close> finds a text inside of another one.\<close>

fun starts_with :: "string \<Rightarrow> string \<Rightarrow> bool" where
  "starts_with s [] = True"
| "starts_with [] (c # cs) = False"
| "starts_with (d # ds) (c # cs) = (d = c \<and> starts_with ds cs)"

fun string_find :: "string \<Rightarrow> string \<Rightarrow> bool" where
  "string_find [] pattern = (pattern = [])"
| "string_find (d # ds) pattern = (starts_with (d # ds) pattern \<or> string_find ds pattern)"

definition default_channel_group_for_path :: "PointerRNA \<Rightarrow> string \<Rightarrow> string option" where
  "default_channel_group_for_path animated_struct prop_rna_path =
     (if struct_type animated_struct = RNA_PoseBone then Some (pose_channel_name animated_struct)
      else if struct_type animated_struct = RNA_Object
              \<and> (string_find prop_rna_path ''location''
                   \<or> string_find prop_rna_path ''rotation''
                   \<or> string_find prop_rna_path ''scale'')
      then Some ''Object Transforms''
      else None)"


section \<open>The legacy insertion path\<close>

text \<open>
  \<open>insert_keyframe_fcurve_value\<close>: the result code and the action after the call.
\<close>

definition insert_keyframe_fcurve_value ::
    "curve_ops \<Rightarrow> 'p rna_ops \<Rightarrow> 'p \<Rightarrow> 'l bAction \<Rightarrow> string option \<Rightarrow> string \<Rightarrow> int \<Rightarrow> real \<Rightarrow> real
      \<Rightarrow> eBezTriple_KeyframeType \<Rightarrow> eInsertKeyFlags \<Rightarrow> SingleKeyingResult \<times> 'l bAction" where
  "insert_keyframe_fcurve_value ops rna prop act grp rna_path array_index fcurve_frame curval
       keytype flag =
     (case (if key_insertion_may_create_fcurve flag
            then action_fcurve_ensure act grp rna_path array_index
            else (action_fcurve_find act rna_path array_index, act)) of
        (None, act1) \<Rightarrow> (CANNOT_CREATE_FCURVE, act1)
      | (Some pos, act1) \<Rightarrow>
          let fcu = curves act1 ! pos;
              is_new_curve = (totvert fcu = 0);
              is_cyclic_action = (INSERTKEY_CYCLE_AWARE \<in> flag \<and> BKE_action_is_cyclic act1);
              fcu1 = (if is_cyclic_action \<and> totvert fcu = 1
                      then make_new_fcurve_cyclic ops fcu (frame_start act1, frame_end act1)
                      else fcu);
              fcu2 = update_autoflags_fcurve_direct fcu1 (RNA_property_type rna prop);
              (result, fcu3) = insert_keyframe_value ops fcu2 fcurve_frame curval keytype flag;
              fcu4 = (if is_cyclic_action \<and> is_new_curve
                      then make_new_fcurve_cyclic ops fcu3 (frame_start act1, frame_end act1)
                      else fcu3)
          in (result, act1\<lparr>curves := (curves act1)[pos := fcu4]\<rparr>))"

text \<open>
  The state of the loops of \<open>insert_keyframe\<close>: the aggregate, the number of keys
  that were inserted and the action.
\<close>

type_synonym 'l keying_state = "CombinedKeyingResult \<times> nat \<times> 'l bAction"

text \<open>
  One key of \<open>insert_keyframe\<close>: the call of \<open>insert_keyframe_fcurve_value\<close> for a
  channel, the result added to the aggregate and a success counted. The second component
  of the outcome tells whether the key was inserted.
\<close>

definition insert_channel ::
    "curve_ops \<Rightarrow> 'p rna_ops \<Rightarrow> 'p \<Rightarrow> string option \<Rightarrow> string \<Rightarrow> real \<Rightarrow> real list
      \<Rightarrow> eBezTriple_KeyframeType \<Rightarrow> eInsertKeyFlags \<Rightarrow> nat \<Rightarrow> 'l keying_state
      \<Rightarrow> 'l keying_state \<times> bool" where
  "insert_channel ops rna prop grp rna_path nla_mapped_frame values keytype flag array_index st =
     (case st of (combined_result, key_count, act) \<Rightarrow>
        (case insert_keyframe_fcurve_value ops rna prop act grp rna_path (int array_index)
                nla_mapped_frame (values ! array_index) keytype flag of
           (result, act') \<Rightarrow>
             ((add combined_result result 1,
               (if result = SUCCESS then key_count + 1 else key_count),
               act'),
              result = SUCCESS)))"

text \<open>
  The first loop of the force mode: the channels that were remapped are tried in their
  order until a key is inserted; \<open>exclude\<close> is the index of that channel, or none.
\<close>

fun force_first_success ::
    "curve_ops \<Rightarrow> 'p rna_ops \<Rightarrow> 'p \<Rightarrow> string option \<Rightarrow> string \<Rightarrow> real \<Rightarrow> real list \<Rightarrow> bool list
      \<Rightarrow> eBezTriple_KeyframeType \<Rightarrow> eInsertKeyFlags \<Rightarrow> nat list \<Rightarrow> 'l keying_state
      \<Rightarrow> nat option \<times> 'l keying_state" where
  "force_first_success ops rna prop grp rna_path frame values successful_remaps keytype flag
       [] st = (None, st)"
| "force_first_success ops rna prop grp rna_path frame values successful_remaps keytype flag
       (array_index # rest) st =
     (if \<not> successful_remaps ! array_index then
        force_first_success ops rna prop grp rna_path frame values successful_remaps keytype
          flag rest st
      else
        (case insert_channel ops rna prop grp rna_path frame values keytype flag array_index st of
           (st', inserted) \<Rightarrow>
             if inserted then (Some array_index, st')
             else force_first_success ops rna prop grp rna_path frame values successful_remaps
                    keytype flag rest st'))"

text \<open>
  The loops over all channels: the second loop of the force mode, which leaves out the
  channel \<open>exclude\<close>, and the loop that inserts all channels, which has nothing to
  leave out.
\<close>

fun insert_channels ::
    "curve_ops \<Rightarrow> 'p rna_ops \<Rightarrow> 'p \<Rightarrow> string option \<Rightarrow> string \<Rightarrow> real \<Rightarrow> real list \<Rightarrow> bool list
      \<Rightarrow> eBezTriple_KeyframeType \<Rightarrow> eInsertKeyFlags \<Rightarrow> nat option \<Rightarrow> nat list \<Rightarrow> 'l keying_state
      \<Rightarrow> 'l keying_state" where
  "insert_channels ops rna prop grp rna_path frame values successful_remaps keytype flag
       exclude [] st = st"
| "insert_channels ops rna prop grp rna_path frame values successful_remaps keytype flag
       exclude (array_index # rest) st =
     (if \<not> successful_remaps ! array_index then
        insert_channels ops rna prop grp rna_path frame values successful_remaps keytype flag
          exclude rest st
      else if Some array_index \<noteq> exclude then
        insert_channels ops rna prop grp rna_path frame values successful_remaps keytype flag
          exclude rest
          (fst (insert_channel ops rna prop grp rna_path frame values keytype flag array_index st))
      else
        insert_channels ops rna prop grp rna_path frame values successful_remaps keytype flag
          exclude rest st)"

datatype DEG_tag = DEG_TAG_ACTION | DEG_TAG_ID | DEG_TAG_RELATIONS

text \<open>
  \<open>nla_time_remap\<close>: the frame is remapped when the entity has animation data whose
  action is the action that is keyed.
\<close>

definition nla_time_remap :: "'p rna_ops \<Rightarrow> real \<Rightarrow> bool \<Rightarrow> real" where
  "nla_time_remap rna eval_time adt_action_is_act =
     (if adt_action_is_act then BKE_nla_tweakedit_remap rna eval_time else eval_time)"

text \<open>
  \<open>insert_keyframe\<close>: the aggregate, the entity after the call and the tags that the
  dependency graph received. \<open>id_action_ensure\<close> returns the action of the animation
  data of the entity, so \<open>adt->action\<close> is \<open>act\<close>: the frame is remapped and there is
  no second action to tag.
\<close>

definition insert_keyframe ::
    "curve_ops \<Rightarrow> 'p rna_ops \<Rightarrow> 'l bAction \<Rightarrow> 'l ID \<Rightarrow> string option \<Rightarrow> string \<Rightarrow> int \<Rightarrow> real
      \<Rightarrow> eBezTriple_KeyframeType \<Rightarrow> eInsertKeyFlags
      \<Rightarrow> CombinedKeyingResult \<times> 'l ID \<times> DEG_tag list" where
  "insert_keyframe ops rna new_action animated_id grp rna_path array_index eval_time keytype flag =
     (if \<not> BKE_id_is_editable animated_id then
        (add CombinedKeyingResult_init ID_NOT_EDITABLE 1, animated_id, [])
      else
        (case RNA_path_resolve_property rna rna_path of
           None \<Rightarrow> (add CombinedKeyingResult_init CANNOT_RESOLVE_PATH 1, animated_id, [])
         | Some prop \<Rightarrow>
             (case id_action_ensure new_action animated_id of
                (None, animated_id1) \<Rightarrow> (add CombinedKeyingResult_init ID_NOT_ANIMATABLE 1, animated_id1, [])
              | (Some act, animated_id1) \<Rightarrow>
                  let nla_mapped_frame = nla_time_remap rna eval_time True;
                      visual_keyframing = (INSERTKEY_MATRIX \<in> flag);
                      values0 = get_keyframe_values rna prop visual_keyframing;
                      (values, force_all, successful_remaps) =
                         BKE_animsys_nla_remap_keyframe_values rna prop values0 array_index True;
                      st0 = (CombinedKeyingResult_init, 0, act);
                      (combined_result, key_count, act') =
                        (if array_index = - 1 \<or> force_all then
                           (if force_all
                               \<and> flag \<inter> {INSERTKEY_REPLACE, INSERTKEY_AVAILABLE} \<noteq> {} then
                              (case force_first_success ops rna prop grp rna_path
                                      nla_mapped_frame values successful_remaps keytype flag
                                      [0..<length values] st0 of
                                 (None, st1) \<Rightarrow> st1
                               | (Some exclude, st1) \<Rightarrow>
                                   insert_channels ops rna prop grp rna_path nla_mapped_frame
                                     values successful_remaps keytype
                                     (flag - {INSERTKEY_REPLACE, INSERTKEY_AVAILABLE})
                                     (Some exclude) [0..<length values] st1)
                            else
                              insert_channels ops rna prop grp rna_path nla_mapped_frame values
                                successful_remaps keytype flag None [0..<length values] st0)
                         else
                           (if array_index \<ge> 0 \<and> array_index < int (length values)
                               \<and> successful_remaps ! nat array_index then
                              fst (insert_channel ops rna prop grp rna_path nla_mapped_frame
                                     values keytype flag (nat array_index) st0)
                            else st0))
                  in (combined_result, store_action animated_id1 act',
                      if key_count > 0 then [DEG_TAG_ACTION] else []))))"

text \<open>
  \<open>insert_key_legacy_action\<close>: the loop over the values, with the index that runs along.
  The function returns the aggregate of the path and the action after the call.
\<close>

fun insert_key_legacy_values ::
    "curve_ops \<Rightarrow> 'p rna_ops \<Rightarrow> 'p \<Rightarrow> string option \<Rightarrow> string \<Rightarrow> real
      \<Rightarrow> eInsertKeyFlags \<Rightarrow> eBezTriple_KeyframeType \<Rightarrow> bool list
      \<Rightarrow> real list \<Rightarrow> nat \<Rightarrow> CombinedKeyingResult \<Rightarrow> 'l bAction
      \<Rightarrow> CombinedKeyingResult \<times> 'l bAction" where
  "insert_key_legacy_values ops rna prop grp rna_path frame insert_key_flag key_type keying_mask
       [] property_array_index combined_result action = (combined_result, action)"
| "insert_key_legacy_values ops rna prop grp rna_path frame insert_key_flag key_type keying_mask
       (v # values) property_array_index combined_result action =
     (if \<not> keying_mask ! property_array_index then
        insert_key_legacy_values ops rna prop grp rna_path frame insert_key_flag key_type
          keying_mask values (property_array_index + 1)
          (add combined_result UNABLE_TO_INSERT_TO_NLA_STACK 1) action
      else
        (case insert_keyframe_fcurve_value ops rna prop action grp rna_path
                (int property_array_index) frame v key_type insert_key_flag of
           (keying_result, action') \<Rightarrow>
             insert_key_legacy_values ops rna prop grp rna_path frame insert_key_flag key_type
               keying_mask values (property_array_index + 1)
               (add combined_result keying_result 1) action'))"

text \<open>
  \<open>insert_key_legacy_action\<close>: the assertion that the action is a legacy action, the
  group of the channel and the loop.
\<close>

definition insert_key_legacy_action ::
    "'l action_kinds \<Rightarrow> curve_ops \<Rightarrow> 'p rna_ops \<Rightarrow> 'l bAction \<Rightarrow> PointerRNA \<Rightarrow> 'p \<Rightarrow> string
      \<Rightarrow> real \<Rightarrow> real list \<Rightarrow> eInsertKeyFlags \<Rightarrow> eBezTriple_KeyframeType \<Rightarrow> bool list
      \<Rightarrow> failure + (CombinedKeyingResult \<times> 'l bAction)" where
  "insert_key_legacy_action kinds ops rna action ptr prop rna_path frame values insert_key_flag
       key_type keying_mask =
     (if \<not> is_action_legacy kinds action then Inl Assertion_failed
      else
        let grp = default_channel_group_for_path ptr rna_path in
        Inr (insert_key_legacy_values ops rna prop grp rna_path frame insert_key_flag key_type
               keying_mask values 0 CombinedKeyingResult_init action))"


section \<open>Keying a curve that is given\<close>

text \<open>
  The loop of \<open>get_keyframe_values_create_reports\<close>: the number of failed indices and
  the text that lists them.
\<close>

fun failed_remaps :: "int \<Rightarrow> bool \<Rightarrow> bool list \<Rightarrow> nat list \<Rightarrow> nat \<times> string \<Rightarrow> nat \<times> string" where
  "failed_remaps index force_all successful_remaps [] acc = acc"
| "failed_remaps index force_all successful_remaps (i # rest) (total_failed, ds_failed_indices) =
     (let cur_index_evaluated = (index = int i \<or> index = - 1 \<or> force_all) in
      if \<not> cur_index_evaluated then
        failed_remaps index force_all successful_remaps rest (total_failed, ds_failed_indices)
      else if successful_remaps ! i then
        failed_remaps index force_all successful_remaps rest (total_failed, ds_failed_indices)
      else
        failed_remaps index force_all successful_remaps rest
          (total_failed + 1, ds_failed_indices @ show_int (int i) @ '', ''))"

definition get_keyframe_values_create_reports ::
    "'p rna_ops \<Rightarrow> ReportList \<Rightarrow> PointerRNA \<Rightarrow> 'p \<Rightarrow> int \<Rightarrow> nat \<Rightarrow> bool \<Rightarrow> bool list
      \<Rightarrow> failure + ReportList" where
  "get_keyframe_values_create_reports rna reports ptr prop index count force_all successful_remaps =
     (case failed_remaps index force_all successful_remaps [0..<count] (0, []) of
        (total_failed, str_failed_indices) \<Rightarrow>
          if total_failed = 0 then Inr reports
          else
            (case owner_id ptr of
               None \<Rightarrow> Inl Null_dereference
             | Some name \<Rightarrow>
                 Inr (BKE_report reports RPT_WARNING
                   (''Could not insert '' @ show_int (int total_failed) @
                    '' keyframe(s) due to zero NLA influence, base value, or value remapping failed: ''
                    @ name @ ''.'' @ RNA_property_ui_name rna prop @
                    '' for indices ['' @ str_failed_indices @ '']''))))"

text \<open>
  \<open>nla_map_keyframe_values_and_generate_reports\<close>: the values after the remapping, the
  bit vector and the reports. The flag \<open>force_all\<close> is not asked for.
\<close>

definition nla_map_keyframe_values_and_generate_reports ::
    "'p rna_ops \<Rightarrow> real list \<Rightarrow> int \<Rightarrow> PointerRNA \<Rightarrow> 'p \<Rightarrow> ReportList
      \<Rightarrow> failure + (real list \<times> bool list \<times> ReportList)" where
  "nla_map_keyframe_values_and_generate_reports rna values index ptr prop reports =
     (case BKE_animsys_nla_remap_keyframe_values rna prop values index False of
        (values', force_all, successful_remaps) \<Rightarrow>
          (case get_keyframe_values_create_reports rna reports ptr prop index (length values)
                  False successful_remaps of
             Inl e \<Rightarrow> Inl e
           | Inr reports' \<Rightarrow> Inr (values', successful_remaps, reports')))"

text \<open>
  \<open>insert_keyframe_direct\<close>: the returned truth value, the curve and the reports after
  the call. The read \<open>successful_remaps[index]\<close> has no check of the index in front of
  it; the model returns \<open>Index_out_of_bounds\<close> when the index is outside of the bit
  vector.
\<close>

definition insert_keyframe_direct ::
    "curve_ops \<Rightarrow> 'p rna_ops \<Rightarrow> ReportList \<Rightarrow> PointerRNA \<Rightarrow> 'p option \<Rightarrow> FCurve option \<Rightarrow> real
      \<Rightarrow> eBezTriple_KeyframeType \<Rightarrow> eInsertKeyFlags
      \<Rightarrow> failure + (bool \<times> FCurve option \<times> ReportList)" where
  "insert_keyframe_direct ops rna reports ptr prop_arg fcu_arg eval_time keytype flag =
     (case fcu_arg of
        None \<Rightarrow> Inr (False, None, BKE_report reports RPT_ERROR ''No F-Curve to add keyframes to'')
      | Some fcu \<Rightarrow>
          if owner_id ptr = None \<and> data_is_null ptr then
            Inr (False, Some fcu, BKE_report reports RPT_ERROR
              ''No RNA pointer available to retrieve values for keyframing from'')
          else
            (case (case prop_arg of
                     Some prop \<Rightarrow> Some prop
                   | None \<Rightarrow> RNA_path_resolve_property rna (fcu_rna_path fcu)) of
               None \<Rightarrow>
                 let idname = (case owner_id ptr of Some name \<Rightarrow> name
                               | None \<Rightarrow> ''<No ID pointer>'')
                 in Inr (False, Some fcu, BKE_report reports RPT_ERROR
                      (''Could not insert keyframe, as RNA path is invalid for the given ID (ID = ''
                       @ idname @ '', path = '' @ fcu_rna_path fcu @ '')''))
             | Some prop \<Rightarrow>
                 let fcu1 = update_autoflags_fcurve_direct fcu (RNA_property_type rna prop);
                     index = fcu_array_index fcu1;
                     visual_keyframing = (INSERTKEY_MATRIX \<in> flag);
                     values0 = get_keyframe_values rna prop visual_keyframing
                 in
                 (case nla_map_keyframe_values_and_generate_reports rna values0 index ptr prop
                         reports of
                    Inl e \<Rightarrow> Inl e
                  | Inr (values, successful_remaps, reports1) \<Rightarrow>
                      let current_value =
                            (if index \<ge> 0 \<and> index < int (length values) then values ! nat index
                             else 0)
                      in
                      if index < 0 \<or> int (length successful_remaps) \<le> index then
                        Inl Index_out_of_bounds
                      else if \<not> successful_remaps ! nat index then
                        Inr (False, Some fcu1, reports1)
                      else
                        (case insert_keyframe_value ops fcu1 eval_time current_value keytype flag of
                           (result, fcu2) \<Rightarrow>
                             Inr (result = SUCCESS, Some fcu2,
                                  if result \<noteq> SUCCESS then
                                    BKE_report reports1 RPT_ERROR
                                      (''Failed to insert keys on F-Curve with path '' @ [CHR 0x27]
                                       @ fcu_rna_path fcu2 @ ''['' @ show_int (fcu_array_index fcu2)
                                       @ '']', ensure that it is not locked or sampled, ''
                                       @ ''and try removing F-Modifiers'')
                                  else reports1)))))"


section \<open>The batch insertion paths\<close>

text \<open>
  A requested path: the path of the property and, when only one element is to be keyed,
  its index.
\<close>

record RNAPath =
  rp_path :: string
  rp_index :: "int option"

text \<open>
  The operations on layered actions are declared in \<open>ANIM_action.hh\<close>, and their
  bodies are not part of the sources at hand: they are parameters of the model. A value
  of type \<open>'b\<close> stands for a pointer to a binding of the action and a value of type
  \<open>'y\<close> for a pointer to one of its layers. \<open>use_animation_baklava\<close> is the
  experimental setting that the dispatch tests. \<open>layer_assertions\<close> tells whether the
  assertions of \<open>insert_key_layer\<close> hold: the layer has one strip, which is infinite
  and has no offset. \<open>strip_keyframe_insert\<close> is \<open>keyframe_insert\<close> on the strip
  with the given number of the layer.
\<close>

record ('l, 'b, 'y) layered_ops =
  use_animation_baklava :: bool
  binding_for_handle :: "'l bAction \<Rightarrow> int \<Rightarrow> 'b option"
  binding_add_for_id :: "'l bAction \<Rightarrow> 'l ID \<Rightarrow> 'b \<times> 'l bAction"
  assign_id :: "'l bAction \<Rightarrow> 'b \<Rightarrow> 'l ID \<Rightarrow> bool \<times> 'l bAction \<times> 'l ID"
  layer_ensure_at_least_one :: "'l bAction \<Rightarrow> 'l bAction"
  get_layer_for_keyframing :: "'l bAction \<Rightarrow> 'y option"
  layer_assertions :: "'l bAction \<Rightarrow> 'y \<Rightarrow> bool"
  strip_keyframe_insert ::
    "'l bAction \<Rightarrow> 'y \<Rightarrow> nat \<Rightarrow> 'b \<Rightarrow> string \<Rightarrow> int \<Rightarrow> real \<times> real \<Rightarrow> KeyframeSettings
      \<Rightarrow> eInsertKeyFlags \<Rightarrow> SingleKeyingResult \<times> 'l bAction"

record KeyInsertData =
  key_position :: "real \<times> real"
  key_array_index :: int

definition insert_key_layer ::
    "('l, 'b, 'y) layered_ops \<Rightarrow> 'l bAction \<Rightarrow> 'y \<Rightarrow> 'b \<Rightarrow> string \<Rightarrow> KeyInsertData
      \<Rightarrow> KeyframeSettings \<Rightarrow> eInsertKeyFlags \<Rightarrow> failure + (SingleKeyingResult \<times> 'l bAction)" where
  "insert_key_layer lops action layer binding rna_path key_data key_settings insert_key_flags =
     (if \<not> layer_assertions lops action layer then Inl Assertion_failed
      else Inr (strip_keyframe_insert lops action layer 0 binding rna_path
                  (key_array_index key_data) (key_position key_data) key_settings
                  insert_key_flags))"

text \<open>The loop of \<open>insert_key_layered_action\<close> over the elements of a property.\<close>

fun insert_key_layered_values ::
    "('l, 'b, 'y) layered_ops \<Rightarrow> 'y \<Rightarrow> 'b \<Rightarrow> RNAPath \<Rightarrow> string \<Rightarrow> real \<Rightarrow> real list
      \<Rightarrow> KeyframeSettings \<Rightarrow> eInsertKeyFlags \<Rightarrow> nat list \<Rightarrow> CombinedKeyingResult \<Rightarrow> 'l bAction
      \<Rightarrow> failure + (CombinedKeyingResult \<times> 'l bAction)" where
  "insert_key_layered_values lops layer binding rna_path rna_path_id_to_prop scene_frame rna_values
       key_settings insert_key_flags [] combined_result action = Inr (combined_result, action)"
| "insert_key_layered_values lops layer binding rna_path rna_path_id_to_prop scene_frame rna_values
       key_settings insert_key_flags (property_index # rest) combined_result action =
     (if rp_index rna_path \<noteq> None \<and> rp_index rna_path \<noteq> Some (int property_index) then
        insert_key_layered_values lops layer binding rna_path rna_path_id_to_prop scene_frame
          rna_values key_settings insert_key_flags rest combined_result action
      else
        (case insert_key_layer lops action layer binding rna_path_id_to_prop
                \<lparr>key_position = (scene_frame, rna_values ! property_index),
                 key_array_index = int property_index\<rparr>
                key_settings insert_key_flags of
           Inl e \<Rightarrow> Inl e
         | Inr (result, action') \<Rightarrow>
             insert_key_layered_values lops layer binding rna_path rna_path_id_to_prop
               scene_frame rna_values key_settings insert_key_flags rest
               (add combined_result result 1) action'))"

text \<open>
  The loop of \<open>insert_key_layered_action\<close> over the requested paths. The message that
  the code prints to the standard error stream for a path that does not resolve is not
  part of the model.
\<close>

fun insert_key_layered_paths ::
    "('l, 'b, 'y) layered_ops \<Rightarrow> 'p rna_ops \<Rightarrow> 'y \<Rightarrow> 'b \<Rightarrow> real \<Rightarrow> KeyframeSettings
      \<Rightarrow> eInsertKeyFlags \<Rightarrow> RNAPath list \<Rightarrow> CombinedKeyingResult \<Rightarrow> 'l bAction
      \<Rightarrow> failure + (CombinedKeyingResult \<times> 'l bAction)" where
  "insert_key_layered_paths lops rna layer binding scene_frame key_settings insert_key_flags
       [] combined_result action = Inr (combined_result, action)"
| "insert_key_layered_paths lops rna layer binding scene_frame key_settings insert_key_flags
       (rna_path # rest) combined_result action =
     (case RNA_path_resolve_property rna (rp_path rna_path) of
        None \<Rightarrow>
          insert_key_layered_paths lops rna layer binding scene_frame key_settings
            insert_key_flags rest (add combined_result CANNOT_RESOLVE_PATH 1) action
      | Some prop \<Rightarrow>
          (case RNA_path_from_ID_to_property rna prop of
             None \<Rightarrow> Inl Assertion_failed
           | Some rna_path_id_to_prop \<Rightarrow>
               let use_visual_keyframing = (INSERTKEY_MATRIX \<in> insert_key_flags);
                   rna_values = get_keyframe_values rna prop use_visual_keyframing
               in
               (case insert_key_layered_values lops layer binding rna_path rna_path_id_to_prop
                       scene_frame rna_values key_settings insert_key_flags
                       [0..<length rna_values] combined_result action of
                  Inl e \<Rightarrow> Inl e
                | Inr (combined_result', action') \<Rightarrow>
                    insert_key_layered_paths lops rna layer binding scene_frame key_settings
                      insert_key_flags rest combined_result' action')))"

text \<open>
  \<open>insert_key_layered_action\<close>: the aggregate, the action and the entity after the
  call, and the tags that the dependency graph received.
\<close>

definition insert_key_layered_action ::
    "'l action_kinds \<Rightarrow> ('l, 'b, 'y) layered_ops \<Rightarrow> 'p rna_ops \<Rightarrow> 'l bAction \<Rightarrow> int \<Rightarrow> 'l ID \<Rightarrow> RNAPath list \<Rightarrow> real
      \<Rightarrow> KeyframeSettings \<Rightarrow> eInsertKeyFlags
      \<Rightarrow> failure + (CombinedKeyingResult \<times> 'l bAction \<times> 'l ID \<times> DEG_tag list)" where
  "insert_key_layered_action kinds lops rna action binding_handle animated_id rna_paths scene_frame
       key_settings insert_key_flags =
     (case (if \<not> is_action_layered kinds action then Inl Assertion_failed
            else case binding_for_handle lops action binding_handle of
              Some binding \<Rightarrow> Inr (binding, action, animated_id)
            | None \<Rightarrow>
                (case binding_add_for_id lops action animated_id of
                   (binding, action1) \<Rightarrow>
                     (case assign_id lops action1 binding animated_id of
                        (success, action2, animated_id') \<Rightarrow>
                          if success then Inr (binding, action2, animated_id')
                          else Inl Assertion_failed))) of
        Inl e \<Rightarrow> Inl e
      | Inr (binding, action2, animated_id') \<Rightarrow>
          let action3 = layer_ensure_at_least_one lops action2 in
          (case get_layer_for_keyframing lops action3 of
             None \<Rightarrow> Inl Assertion_failed
           | Some layer \<Rightarrow>
               (case insert_key_layered_paths lops rna layer binding scene_frame key_settings
                       insert_key_flags rna_paths CombinedKeyingResult_init action3 of
                  Inl e \<Rightarrow> Inl e
                | Inr (combined_result, action4) \<Rightarrow>
                    Inr (combined_result, action4, animated_id', [DEG_TAG_ACTION]))))"

text \<open>The loop of the legacy branch of \<open>insert_key_rna\<close> over the requested paths.\<close>

fun insert_key_rna_paths ::
    "'l action_kinds \<Rightarrow> curve_ops \<Rightarrow> 'p rna_ops \<Rightarrow> PointerRNA \<Rightarrow> real \<Rightarrow> eInsertKeyFlags
      \<Rightarrow> eBezTriple_KeyframeType \<Rightarrow> RNAPath list \<Rightarrow> CombinedKeyingResult \<Rightarrow> 'l bAction
      \<Rightarrow> failure + (CombinedKeyingResult \<times> 'l bAction)" where
  "insert_key_rna_paths kinds ops rna rna_pointer nla_frame insert_key_flags key_type []
       combined_result action = Inr (combined_result, action)"
| "insert_key_rna_paths kinds ops rna rna_pointer nla_frame insert_key_flags key_type
       (rna_path # rest) combined_result action =
     (case RNA_path_resolve_property rna (rp_path rna_path) of
        None \<Rightarrow>
          insert_key_rna_paths kinds ops rna rna_pointer nla_frame insert_key_flags key_type rest
            (add combined_result CANNOT_RESOLVE_PATH 1) action
      | Some prop \<Rightarrow>
          (case RNA_path_from_ID_to_property rna prop of
             None \<Rightarrow> Inl Null_dereference
           | Some rna_path_id_to_prop \<Rightarrow>
               let visual_keyframing = (INSERTKEY_MATRIX \<in> insert_key_flags);
                   rna_values0 = get_keyframe_values rna prop visual_keyframing
               in
               (case BKE_animsys_nla_remap_keyframe_values rna prop rna_values0
                       (case rp_index rna_path of Some i \<Rightarrow> i | None \<Rightarrow> - 1) False of
                  (rna_values, force_all, successful_remaps) \<Rightarrow>
                    (case insert_key_legacy_action kinds ops rna action rna_pointer prop
                            rna_path_id_to_prop nla_frame rna_values insert_key_flags key_type
                            successful_remaps of
                       Inl e \<Rightarrow> Inl e
                     | Inr (result, action') \<Rightarrow>
                         insert_key_rna_paths kinds ops rna rna_pointer nla_frame
                           insert_key_flags key_type rest (merge combined_result result)
                           action'))))"

text \<open>
  \<open>insert_key_rna\<close>: the aggregate, the entity after the call and the tags that the
  dependency graph received. The entity is the owner of \<open>rna_pointer\<close>.
\<close>

definition insert_key_rna ::
    "'l action_kinds \<Rightarrow> curve_ops \<Rightarrow> 'p rna_ops \<Rightarrow> ('l, 'b, 'y) layered_ops \<Rightarrow> 'l bAction
      \<Rightarrow> PointerRNA \<Rightarrow> 'l ID \<Rightarrow> RNAPath list \<Rightarrow> real \<Rightarrow> eInsertKeyFlags
      \<Rightarrow> eBezTriple_KeyframeType
      \<Rightarrow> failure + (CombinedKeyingResult \<times> 'l ID \<times> DEG_tag list)" where
  "insert_key_rna kinds ops rna lops new_action rna_pointer animated_id rna_paths scene_frame
       insert_key_flags key_type =
     (case BKE_animdata_ensure_id animated_id of
        (None, animated_id0) \<Rightarrow>
          Inr (add CombinedKeyingResult_init ID_NOT_ANIMATABLE 1, animated_id0, [])
      | (Some adt0, animated_id0) \<Rightarrow>
          (case id_action_ensure new_action animated_id0 of
             (None, animated_id1) \<Rightarrow> Inl Assertion_failed
           | (Some action, animated_id1) \<Rightarrow>
               if use_animation_baklava lops \<and> is_action_layered kinds action then
                 let key_settings = \<lparr>keyframe_type = key_type, handle = HD_AUTO_ANIM,
                                      interpolation = BEZT_IPO_BEZ\<rparr>;
                     binding_handle = (case id_adt animated_id1 of
                                         Some adt \<Rightarrow> adt_binding_handle adt
                                       | None \<Rightarrow> adt_binding_handle adt0)
                 in
                 (case insert_key_layered_action kinds lops rna action binding_handle
                         animated_id1 rna_paths scene_frame key_settings insert_key_flags of
                    Inl e \<Rightarrow> Inl e
                  | Inr (combined_result, action', animated_id2, tags) \<Rightarrow>
                      Inr (combined_result, store_action animated_id2 action', tags))
               else
                 let nla_frame = BKE_nla_tweakedit_remap rna scene_frame in
                 (case insert_key_rna_paths kinds ops rna rna_pointer nla_frame insert_key_flags
                         key_type rna_paths CombinedKeyingResult_init action of
                    Inl e \<Rightarrow> Inl e
                  | Inr (combined_result, action') \<Rightarrow>
                      Inr (combined_result, store_action animated_id1 action', []))))"


section \<open>The special rule of the legacy path, in the words of the spec\<close>

text \<open>
  The spec describes the rule for forcing all channels under a replace-only or
  available-only policy as follows: attempt the channels in order; on the first success,
  drop the restriction for the remaining channels and write them under the relaxed
  policy. The two definitions below say this for an arbitrary attempt to write one channel:
  \<open>attempt flag i st\<close> returns the state after the attempt and whether it succeeded.
\<close>

fun spec_first_success :: "(nat \<Rightarrow> 's \<Rightarrow> 's \<times> bool) \<Rightarrow> nat list \<Rightarrow> 's \<Rightarrow> nat option \<times> 's" where
  "spec_first_success attempt [] st = (None, st)"
| "spec_first_success attempt (i # channels) st =
     (case attempt i st of
        (st', succeeded) \<Rightarrow>
          if succeeded then (Some i, st') else spec_first_success attempt channels st')"

definition spec_force_all_insert ::
    "(eInsertKeyFlags \<Rightarrow> nat \<Rightarrow> 's \<Rightarrow> 's \<times> bool) \<Rightarrow> eInsertKeyFlags \<Rightarrow> nat list \<Rightarrow> 's \<Rightarrow> 's" where
  "spec_force_all_insert attempt flag channels st =
     (case spec_first_success (attempt flag) channels st of
        (None, st1) \<Rightarrow> st1
      | (Some first, st1) \<Rightarrow>
          foldl (\<lambda>st i. fst (attempt (flag - {INSERTKEY_REPLACE, INSERTKEY_AVAILABLE}) i st)) st1
            (filter (\<lambda>i. i \<noteq> first) channels))"


section \<open>Example inputs\<close>

text \<open>
  Modelled from the spec: \<open>insert_vert_fcurve\<close> is not part of the sources at hand.
  By the spec the insertion of a point keeps the points ordered by time, and a point
  inserted at the time of an existing point takes its place. The example below does this
  and always succeeds; it stands for the absent function where a concrete run is
  evaluated.
\<close>

fun insert_point :: "BezTriple \<Rightarrow> BezTriple list \<Rightarrow> BezTriple list" where
  "insert_point b [] = [b]"
| "insert_point b (x # xs) =
     (if fst (vec1 b) < fst (vec1 x) then b # x # xs
      else if fst (vec1 b) = fst (vec1 x) then b # xs
      else x # insert_point b xs)"

definition example_insert_vert_fcurve ::
    "FCurve \<Rightarrow> real \<times> real \<Rightarrow> KeyframeSettings \<Rightarrow> eInsertKeyFlags \<Rightarrow> SingleKeyingResult \<times> FCurve" where
  "example_insert_vert_fcurve fcu position settings flag =
     (SUCCESS, fcu\<lparr>bezt := insert_point \<lparr>vec0 = position, vec1 = position, vec2 = position\<rparr> (bezt fcu)\<rparr>)"

definition example_cycles_modifier :: FModifier where
  "example_cycles_modifier =
     \<lparr>fmod_type = FMODIFIER_TYPE_CYCLES,
      fmod_data = \<lparr>before_mode = FCM_EXTRAPOLATE_CYCLIC, after_mode = FCM_EXTRAPOLATE_CYCLIC,
                   cycle_type = FCU_CYCLE_PERFECT\<rparr>\<rparr>"

definition example_curve_ops :: curve_ops where
  "example_curve_ops =
     \<lparr>get_keyframe_settings =
        (\<lambda>from_userprefs. \<lparr>keyframe_type = BEZT_KEYTYPE_KEYFRAME, handle = HD_AUTO_ANIM,
                            interpolation = BEZT_IPO_BEZ\<rparr>),
      insert_vert_fcurve = example_insert_vert_fcurve,
      new_cycles_modifier = example_cycles_modifier\<rparr>"

text \<open>
  A curve with two keyframes, at the times 0 and 10 with the values 0 and 5, under a
  cycles modifier of the regular kind.
\<close>

definition two_point_curve :: FCurve where
  "two_point_curve =
     \<lparr>fcu_rna_path = ''location'', fcu_array_index = 0,
      bezt = [\<lparr>vec0 = (0, 0), vec1 = (0, 0), vec2 = (0, 0)\<rparr>,
              \<lparr>vec0 = (10, 5), vec1 = (10, 5), vec2 = (10, 5)\<rparr>],
      fpt = [], fcu_flag = {}, modifiers = [example_cycles_modifier]\<rparr>"

text \<open>The same curve when it is locked, and a sampled curve.\<close>

definition locked_curve :: FCurve where
  "locked_curve = two_point_curve\<lparr>fcu_flag := {FCURVE_PROTECTED}\<rparr>"

definition sampled_curve :: FCurve where
  "sampled_curve = two_point_curve\<lparr>bezt := [], fpt := [(0, 0), (1, 2)]\<rparr>"


text \<open>
  A property with three channels, \<open>location\<close>, whose values are 1, 2 and 3; every
  other path does not resolve. The NLA remapping accepts every channel, leaves the values
  and the frame as they are, and forces all channels for a caller that asks for the flag.
\<close>

definition example_rna_ops :: "unit rna_ops" where
  "example_rna_ops =
     \<lparr>RNA_path_resolve_property = (\<lambda>path. if path = ''location'' then Some () else None),
      RNA_path_from_ID_to_property = (\<lambda>prop. Some ''location''),
      RNA_property_type = (\<lambda>prop. PROP_FLOAT),
      RNA_property_ui_name = (\<lambda>prop. ''Location''),
      get_rna_values = (\<lambda>prop. [1, 2, 3]),
      visualkey_can_use = (\<lambda>prop. False),
      visualkey_get_values = (\<lambda>prop. []),
      nla_remap_value = (\<lambda>prop values index r_force_all_given i. values ! i),
      nla_remap_success = (\<lambda>prop values index r_force_all_given i. True),
      nla_remap_force_all = (\<lambda>prop values index r_force_all_given. r_force_all_given),
      BKE_nla_tweakedit_remap = (\<lambda>frame. frame)\<rparr>"

text \<open>
  In the examples the layered data of an action is the list of the keys that were written
  into it, each with its path and index. An action is a legacy action when it has no such
  keys, and a layered action when it has no legacy curves.
\<close>

type_synonym example_keys = "(string \<times> int \<times> real \<times> real) list"

definition example_action_kinds :: "example_keys action_kinds" where
  "example_action_kinds =
     \<lparr>is_action_legacy = (\<lambda>action. layered action = []),
      is_action_layered = (\<lambda>action. curves action = [])\<rparr>"

text \<open>An empty action, and an action whose only curve is that of channel 1 of the property.\<close>

definition empty_action :: "example_keys bAction" where
  "empty_action = \<lparr>curves = [], frame_start = 0, frame_end = 0, act_cyclic = False, layered = []\<rparr>"

definition channel_1_curve :: FCurve where
  "channel_1_curve =
     \<lparr>fcu_rna_path = ''location'', fcu_array_index = 1,
      bezt = [\<lparr>vec0 = (1, 0), vec1 = (1, 0), vec2 = (1, 0)\<rparr>],
      fpt = [], fcu_flag = {}, modifiers = []\<rparr>"

definition channel_1_action :: "example_keys bAction" where
  "channel_1_action = empty_action\<lparr>curves := [channel_1_curve]\<rparr>"

definition example_id :: "example_keys ID" where
  "example_id =
     \<lparr>id_name = ''OBCube'', id_editable = True, id_animatable = True,
      id_adt = Some \<lparr>adt_action = Some channel_1_action, adt_binding_handle = 0\<rparr>\<rparr>"




text \<open>The times of the keys of each curve of the action of an entity, with the channel.\<close>

definition channel_key_times :: "'l ID \<Rightarrow> (int \<times> real list) list" where
  "channel_key_times animated_id =
     (case id_adt animated_id of
        None \<Rightarrow> []
      | Some adt \<Rightarrow>
          (case adt_action adt of
             None \<Rightarrow> []
           | Some act \<Rightarrow>
               map (\<lambda>fcu. (fcu_array_index fcu, map (\<lambda>b. fst (vec1 b)) (bezt fcu))) (curves act)))"


text \<open>
  A curve for a channel 3 of the property, which has three values, and a pointer with an
  owner.
\<close>

definition channel_3_curve :: FCurve where
  "channel_3_curve =
     \<lparr>fcu_rna_path = ''location'', fcu_array_index = 3, bezt = [], fpt = [], fcu_flag = {},
      modifiers = []\<rparr>"

definition example_ptr :: PointerRNA where
  "example_ptr =
     \<lparr>owner_id = Some ''OBCube'', data_is_null = False, struct_type = RNA_Object,
      pose_channel_name = []\<rparr>"

text \<open>
  An example of the operations on layered actions: there is one layer, whose assertions
  hold, the binding with the handle 0 does not exist yet, and every key is written.
\<close>

definition example_layered_ops :: "(example_keys, int, nat) layered_ops" where
  "example_layered_ops =
     \<lparr>use_animation_baklava = True,
      binding_for_handle = (\<lambda>action handle. if handle = 0 then None else Some handle),
      binding_add_for_id = (\<lambda>action animated_id. (1, action)),
      assign_id = (\<lambda>action binding animated_id. (True, action, animated_id)),
      layer_ensure_at_least_one = (\<lambda>action. action),
      get_layer_for_keyframing = (\<lambda>action. Some 0),
      layer_assertions = (\<lambda>action layer. True),
      strip_keyframe_insert =
        (\<lambda>action layer strip binding rna_path array_index time_value settings insert_key_flags.
           (SUCCESS, action\<lparr>layered := layered action @ [(rna_path, array_index, time_value)]\<rparr>))\<rparr>"

text \<open>An entity whose action is empty.\<close>

definition layered_id :: "example_keys ID" where
  "layered_id =
     \<lparr>id_name = ''OBCube'', id_editable = True, id_animatable = True,
      id_adt = Some \<lparr>adt_action = Some empty_action, adt_binding_handle = 0\<rparr>\<rparr>"

definition example_key_settings :: KeyframeSettings where
  "example_key_settings =
     \<lparr>keyframe_type = BEZT_KEYTYPE_KEYFRAME, handle = HD_AUTO_ANIM, interpolation = BEZT_IPO_BEZ\<rparr>"

text \<open>
  What a call of \<open>insert_key_layered_action\<close> amounts to, when it returns: the number of
  keys that were written, the layered data of the action and the tags.
\<close>

definition layered_outcome ::
    "failure + (CombinedKeyingResult \<times> 'l bAction \<times> 'l ID \<times> DEG_tag list)
      \<Rightarrow> (int \<times> 'l \<times> DEG_tag list) option" where
  "layered_outcome r =
     (case r of
        Inl e \<Rightarrow> None
      | Inr (combined_result, action, animated_id, tags) \<Rightarrow>
          Some (get_count combined_result SUCCESS, layered action, tags))"



text \<open>The aggregate that a call of \<open>insert_key_rna\<close> returns, when it returns.\<close>

definition rna_outcome ::
    "failure + (CombinedKeyingResult \<times> 'l ID \<times> DEG_tag list) \<Rightarrow> CombinedKeyingResult option" where
  "rna_outcome r =
     (case r of
        Inl e \<Rightarrow> None
      | Inr (combined_result, animated_id, tags) \<Rightarrow> Some combined_result)"

text \<open>Two requested paths: one that does not resolve, and the property with all its channels.\<close>

definition unresolved_path :: RNAPath where
  "unresolved_path = \<lparr>rp_path = ''nonexistent'', rp_index = None\<rparr>"

definition location_path :: RNAPath where
  "location_path = \<lparr>rp_path = ''location'', rp_index = None\<rparr>"


section \<open>Properties of the aggregate\<close>


lemma int_of_result_less: "int_of_result r < KEYING_RESULT_MAX"
  by (cases r) (simp_all add: KEYING_RESULT_MAX_def)

lemma int_of_result_eq_iff: "(int_of_result r = int_of_result r') = (r = r')"
  by (cases r; cases r') simp_all

lemma wf_init: "wf_result CombinedKeyingResult_init"
  by (simp add: wf_result_def CombinedKeyingResult_init_def)


lemma wf_merge: "wf_result A \<Longrightarrow> wf_result B \<Longrightarrow> wf_result (merge A B)"
  by (simp add: wf_result_def merge_def)

lemma get_count_init: "get_count CombinedKeyingResult_init r = 0"
  using int_of_result_less [of r]
  by (simp add: get_count_def CombinedKeyingResult_init_def)


lemma get_count_merge:
  "wf_result A \<Longrightarrow> wf_result B \<Longrightarrow> get_count (merge A B) r = get_count A r + get_count B r"
  using int_of_result_less [of r]
  by (simp add: get_count_def merge_def wf_result_def)

lemma map2_add_commute: "map2 (+) (xs :: int list) ys = map2 (+) ys xs"
  by (induction xs ys rule: list_induct2') simp_all

lemma map2_add_assoc: "map2 (+) (map2 (+) (xs :: int list) ys) zs = map2 (+) xs (map2 (+) ys zs)"
proof (induction xs arbitrary: ys zs)
  case Nil
  then show ?case by simp
next
  case (Cons x xs)
  then show ?case by (cases ys; cases zs) simp_all
qed

lemma merge_commute: "merge A B = merge B A"
  by (simp add: merge_def map2_add_commute)

lemma merge_assoc: "merge (merge A B) C = merge A (merge B C)"
  unfolding merge_def by (rule map2_add_assoc)

lemma upt_1_12: "[Suc 0..<12] = [1,2,3,4,5,6,7,8,9,10,11::nat]"
  by (simp add: upt_rec)

lemma has_errors_iff:
  "wf_result A \<Longrightarrow> has_errors A = list_ex (\<lambda>r. get_count A r > 0) error_kinds"
  by (simp add: has_errors_def wf_result_def KEYING_RESULT_MAX_def upt_1_12 error_kinds_def get_count_def)

lemma foldl_append_error:
  "foldl (\<lambda>errors r. append_error A r errors) acc rs =
     acc @ map (\<lambda>r. error_text r (get_count A r)) (filter (\<lambda>r. get_count A r > 0) rs)"
  by (induction rs arbitrary: acc) (simp_all add: append_error_def)

lemma collect_errors_eq:
  "collect_errors A = map (\<lambda>r. error_text r (get_count A r)) (filter (\<lambda>r. get_count A r > 0) error_kinds)"
proof -
  have "collect_errors A = foldl (\<lambda>errors r. append_error A r errors) [] error_kinds"
    by (simp add: collect_errors_def error_kinds_def)
  then show ?thesis by (simp add: foldl_append_error)
qed

lemma combined_message_foldl:
  "foldl (\<lambda>error_message error. error_message @ [CHR 0x0A] @ ''- '' @ error) h errors =
     h @ concat (map (\<lambda>error. [CHR 0x0A] @ ''- '' @ error) errors)"
  by (induction errors arbitrary: h) simp_all


lemma nonneg_get_count: "wf_result A \<Longrightarrow> nonneg_counts A \<Longrightarrow> 0 \<le> get_count A r"
  using int_of_result_less [of r]
  by (simp add: nonneg_counts_def wf_result_def get_count_def list_all_length)

lemma filter_nonzero_positive:
  assumes "wf_result A" "nonneg_counts A"
  shows "filter (\<lambda>r. get_count A r \<noteq> 0) rs = filter (\<lambda>r. get_count A r > 0) rs"
proof (rule filter_cong [OF refl])
  fix r
  from nonneg_get_count [OF assms, of r]
  show "(get_count A r \<noteq> 0) = (0 < get_count A r)" by auto
qed

lemma error_text_mentions_count:
  "r \<noteq> SUCCESS \<Longrightarrow> \<exists>pre post. error_text r n = pre @ show_int n @ post"
proof (cases r)
  case FCURVE_NOT_KEYFRAMEABLE
  have "error_text FCURVE_NOT_KEYFRAMEABLE n = [] @ show_int n @
     '' F-Curve(s) are not keyframeable. They might be locked or sampled.''"
    by (simp only: error_text.simps append_Nil)
  with FCURVE_NOT_KEYFRAMEABLE show ?thesis by blast
qed (simp only: error_text.simps, blast)+

lemma generate_reports_no_counts:
  assumes "wf_result A" "\<forall>r. get_count A r = 0"
  shows "generate_reports A reports =
    reports @ [(RPT_WARNING, ''No keys have been inserted and no errors have been reported.'')]"
proof -
  have "\<not> has_errors A"
    using assms by (simp add: has_errors_iff list_ex_iff)
  with assms show ?thesis
    by (simp add: generate_reports_def BKE_report_def)
qed

lemma generate_reports_errors:
  assumes "wf_result A" "filter (\<lambda>r. get_count A r > 0) error_kinds \<noteq> []"
  shows "generate_reports A reports =
    reports @ [(RPT_ERROR,
      (let errors = collect_errors A in
       if length errors = 1 then errors ! 0 else combined_message errors))]"
proof -
  have "has_errors A"
    using assms by (simp add: has_errors_iff list_ex_iff filter_empty_conv)
  moreover have "collect_errors A \<noteq> []"
    using assms(2) by (simp add: collect_errors_eq)
  ultimately show ?thesis
    by (simp add: generate_reports_def BKE_report_def Let_def)
qed

subsection \<open>The counters in the arithmetic of \<open>int\<close>\<close>

lemma wrap_int32_range: "int32_range x \<Longrightarrow> wrap_int32 x = x"
  by (simp add: int32_range_def wrap_int32_def)

lemma int32_range_wrap: "int32_range (wrap_int32 x)"
proof -
  have "0 \<le> (x + 2 ^ 31) mod (2 ^ 32 :: int)" and "(x + 2 ^ 31) mod (2 ^ 32 :: int) < 2 ^ 32"
    by simp_all
  then show ?thesis
    by (simp add: int32_range_def wrap_int32_def)
qed

lemma wrap_int32_add_left: "wrap_int32 (wrap_int32 a + b) = wrap_int32 (a + b)"
proof -
  have "(wrap_int32 a + b + 2 ^ 31) mod 2 ^ 32 = ((a + 2 ^ 31) mod 2 ^ 32 + b) mod (2 ^ 32 :: int)"
    by (simp add: wrap_int32_def)
  also have "\<dots> = (a + 2 ^ 31 + b) mod 2 ^ 32"
    by (rule mod_add_left_eq)
  finally show ?thesis
    by (simp add: wrap_int32_def ac_simps)
qed

lemma wrap_int32_add_right: "wrap_int32 (a + wrap_int32 b) = wrap_int32 (a + b)"
  using wrap_int32_add_left [of b a] by (simp add: ac_simps)

lemma wf_add_int32: "wf_result A \<Longrightarrow> wf_result (add_int32 A r c)"
  by (simp add: wf_result_def add_int32_def)

lemma wf_merge_int32: "wf_result A \<Longrightarrow> wf_result B \<Longrightarrow> wf_result (merge_int32 A B)"
  by (simp add: wf_result_def merge_int32_def)

lemma get_count_add_int32:
  "wf_result A \<Longrightarrow> get_count (add_int32 A r c) r' =
     (if r' = r then wrap_int32 (get_count A r + c) else get_count A r')"
  using int_of_result_less [of r] int_of_result_less [of r']
  by (simp add: get_count_def add_int32_def wf_result_def nth_list_update int_of_result_eq_iff)

lemma get_count_merge_int32:
  "wf_result A \<Longrightarrow> wf_result B \<Longrightarrow>
     get_count (merge_int32 A B) r = wrap_int32 (get_count A r + get_count B r)"
  using int_of_result_less [of r]
  by (simp add: get_count_def merge_int32_def wf_result_def)

lemma merge_int32_commute: "merge_int32 A B = merge_int32 B A"
  unfolding merge_int32_def
  by (induction A B rule: list_induct2') (simp_all add: add.commute)

lemma merge_int32_assoc: "merge_int32 (merge_int32 A B) C = merge_int32 A (merge_int32 B C)"
  unfolding merge_int32_def
proof (induction A arbitrary: B C)
  case Nil
  then show ?case by simp
next
  case (Cons a A)
  then show ?case
    by (cases B; cases C) (simp_all add: wrap_int32_add_left wrap_int32_add_right add.assoc)
qed

text \<open>
  As long as the sums stay in the range of \<open>int\<close>, the counters in mathematical
  integers are the counters of the code.
\<close>

lemma add_int32_exact:
  "int32_range (A ! int_of_result r + c) \<Longrightarrow> add_int32 A r c = add A r c"
  by (simp add: add_int32_def add_def wrap_int32_range)

lemma merge_int32_exact:
  "list_all int32_range (map2 (+) A B) \<Longrightarrow> merge_int32 A B = merge A B"
  unfolding merge_int32_def merge_def
  by (induction A B rule: list_induct2') (simp_all add: wrap_int32_range)

section \<open>Claims about the aggregate and its reports\<close>

text \<open>
  Claim C7, as the code has it. The counters are of the type \<open>int\<close> and their sums wrap
  around: merging an aggregate that holds 2147483647 successes with one that holds a
  single success leaves -2147483648 in the counter, which is not the sum of the two
  counts.
\<close>

theorem merge_int32_overflow:
  "get_count (add_int32 CombinedKeyingResult_init SUCCESS 2147483647) SUCCESS = 2147483647
   \<and> get_count (add_int32 CombinedKeyingResult_init SUCCESS 1) SUCCESS = 1
   \<and> get_count (merge_int32 (add_int32 CombinedKeyingResult_init SUCCESS 2147483647)
        (add_int32 CombinedKeyingResult_init SUCCESS 1)) SUCCESS = - 2147483648
   \<and> get_count (merge_int32 (add_int32 CombinedKeyingResult_init SUCCESS 2147483647)
        (add_int32 CombinedKeyingResult_init SUCCESS 1)) SUCCESS
      \<noteq> get_count (add_int32 CombinedKeyingResult_init SUCCESS 2147483647) SUCCESS
        + get_count (add_int32 CombinedKeyingResult_init SUCCESS 1) SUCCESS"
  by code_simp

text \<open>
  Claim C7, amended. For every result code \<open>R\<close> and every count \<open>c\<close> that an
  \<open>int\<close> holds (in particular every such \<open>c \<ge> 0\<close>), \<open>add R c\<close> on a freshly
  constructed aggregate makes \<open>get_count R\<close> equal to \<open>c\<close>. Merging two aggregates
  in either order gives the same count for every kind, namely the sum of the two counts
  of that kind in the arithmetic of \<open>int\<close>, which wraps around at 32 bits; it is the
  sum of the two counts whenever that sum is in the range of \<open>int\<close>. \<open>merge\<close> is
  commutative and associative.
\<close>

theorem combined_result_add_merge_int32:
  assumes "wf_result A" and "wf_result B"
  shows "(int32_range c \<longrightarrow> get_count (add_int32 CombinedKeyingResult_init R c) R = c)
       \<and> get_count (merge_int32 A B) R = wrap_int32 (get_count A R + get_count B R)
       \<and> get_count (merge_int32 B A) R = wrap_int32 (get_count A R + get_count B R)
       \<and> (int32_range (get_count A R + get_count B R)
            \<longrightarrow> get_count (merge_int32 A B) R = get_count A R + get_count B R
              \<and> get_count (merge_int32 B A) R = get_count A R + get_count B R)
       \<and> merge_int32 A B = merge_int32 B A
       \<and> merge_int32 (merge_int32 A B) C = merge_int32 A (merge_int32 B C)"
proof -
  have "int32_range c \<Longrightarrow> get_count (add_int32 CombinedKeyingResult_init R c) R = c"
    by (simp add: get_count_add_int32 [OF wf_init] get_count_init wrap_int32_range)
  moreover have ab: "get_count (merge_int32 A B) R = wrap_int32 (get_count A R + get_count B R)"
    using assms by (rule get_count_merge_int32)
  moreover have ba: "get_count (merge_int32 B A) R = wrap_int32 (get_count A R + get_count B R)"
    using get_count_merge_int32 [OF assms(2) assms(1), of R] by (simp add: add.commute)
  moreover have "int32_range (get_count A R + get_count B R)
      \<Longrightarrow> get_count (merge_int32 A B) R = get_count A R + get_count B R
        \<and> get_count (merge_int32 B A) R = get_count A R + get_count B R"
    using ab ba by (simp add: wrap_int32_range)
  moreover have "merge_int32 A B = merge_int32 B A"
    by (rule merge_int32_commute)
  moreover have "merge_int32 (merge_int32 A B) C = merge_int32 A (merge_int32 B C)"
    by (rule merge_int32_assoc)
  ultimately show ?thesis by blast
qed

theorem combined_result_add_merge_int32_witness:
  "wf_result (add_int32 CombinedKeyingResult_init SUCCESS 2)
   \<and> wf_result (add_int32 CombinedKeyingResult_init CANNOT_RESOLVE_PATH 1)
   \<and> int32_range 5
   \<and> get_count (add_int32 CombinedKeyingResult_init SUCCESS 5) SUCCESS = 5
   \<and> int32_range (get_count (add_int32 CombinedKeyingResult_init SUCCESS 2) SUCCESS
        + get_count (add_int32 CombinedKeyingResult_init CANNOT_RESOLVE_PATH 1) SUCCESS)
   \<and> get_count (merge_int32 (add_int32 CombinedKeyingResult_init SUCCESS 2)
        (add_int32 CombinedKeyingResult_init CANNOT_RESOLVE_PATH 1)) SUCCESS = 2
   \<and> get_count (merge_int32 (add_int32 CombinedKeyingResult_init CANNOT_RESOLVE_PATH 1)
        (add_int32 CombinedKeyingResult_init SUCCESS 2)) SUCCESS = 2
   \<and> merge_int32 (add_int32 CombinedKeyingResult_init SUCCESS 2)
        (add_int32 CombinedKeyingResult_init CANNOT_RESOLVE_PATH 1)
      = merge_int32 (add_int32 CombinedKeyingResult_init CANNOT_RESOLVE_PATH 1)
        (add_int32 CombinedKeyingResult_init SUCCESS 2)"
proof -
  have a: "wf_result (add_int32 CombinedKeyingResult_init SUCCESS 2)"
    by code_simp
  have b: "wf_result (add_int32 CombinedKeyingResult_init CANNOT_RESOLVE_PATH 1)"
    by code_simp
  have c: "int32_range 5"
    by code_simp
  have d: "get_count (add_int32 CombinedKeyingResult_init SUCCESS 2) SUCCESS
      + get_count (add_int32 CombinedKeyingResult_init CANNOT_RESOLVE_PATH 1) SUCCESS = 2"
    by code_simp
  have e: "int32_range 2"
    by code_simp
  from combined_result_add_merge_int32 [OF a b, where R = SUCCESS and c = 5
      and C = CombinedKeyingResult_init]
  show ?thesis using a b c d e by simp
qed

text \<open>
  Claim C3. The policy of \<open>generate_reports\<close>, for an aggregate whose counters are not
  negative: when all counts are zero, exactly one warning is emitted; when exactly one
  kind of failure has a nonzero count, exactly one error is emitted, whose text is the
  message of that kind and contains the decimal count; when two or more kinds of failure
  have a nonzero count, exactly one error is emitted, which starts with the fixed header
  line and continues with one line for each such kind, holding its message with its count.
\<close>

theorem generate_reports_policy:
  assumes "wf_result A" and "nonneg_counts A"
  shows "((\<forall>r. get_count A r = 0) \<longrightarrow>
           generate_reports A reports =
             reports @ [(RPT_WARNING,
               ''No keys have been inserted and no errors have been reported.'')])
       \<and> (\<forall>k. filter (\<lambda>r. get_count A r \<noteq> 0) error_kinds = [k] \<longrightarrow>
           generate_reports A reports = reports @ [(RPT_ERROR, error_text k (get_count A k))]
           \<and> (\<exists>pre post. error_text k (get_count A k) = pre @ show_int (get_count A k) @ post))
       \<and> (2 \<le> length (filter (\<lambda>r. get_count A r \<noteq> 0) error_kinds) \<longrightarrow>
           generate_reports A reports =
             reports @ [(RPT_ERROR, ''Inserting keyframes failed:'' @
               concat (map (\<lambda>r. [CHR 0x0A] @ ''- '' @ error_text r (get_count A r))
                 (filter (\<lambda>r. get_count A r \<noteq> 0) error_kinds)))])"
proof (intro conjI impI allI)
  assume "\<forall>r. get_count A r = 0"
  with assms(1) show "generate_reports A reports =
      reports @ [(RPT_WARNING, ''No keys have been inserted and no errors have been reported.'')]"
    by (rule generate_reports_no_counts)
next
  fix k
  assume one: "filter (\<lambda>r. get_count A r \<noteq> 0) error_kinds = [k]"
  then have pos: "filter (\<lambda>r. get_count A r > 0) error_kinds = [k]"
    by (simp add: filter_nonzero_positive [OF assms])
  then have "collect_errors A = [error_text k (get_count A k)]"
    by (simp add: collect_errors_eq)
  with generate_reports_errors [OF assms(1), of reports] pos
  show "generate_reports A reports = reports @ [(RPT_ERROR, error_text k (get_count A k))]"
    by simp
  have "k \<in> set (filter (\<lambda>r. get_count A r \<noteq> 0) error_kinds)"
    by (simp only: one list.set_intros)
  then have "k \<in> set error_kinds"
    by (simp only: set_filter) blast
  moreover have "SUCCESS \<notin> set error_kinds"
    by (simp add: error_kinds_def)
  ultimately have "k \<noteq> SUCCESS"
    by blast
  then show "\<exists>pre post. error_text k (get_count A k) = pre @ show_int (get_count A k) @ post"
    by (rule error_text_mentions_count)
next
  assume many: "2 \<le> length (filter (\<lambda>r. get_count A r \<noteq> 0) error_kinds)"
  let ?ks = "filter (\<lambda>r. get_count A r > 0) error_kinds"
  have eq: "filter (\<lambda>r. get_count A r \<noteq> 0) error_kinds = ?ks"
    by (rule filter_nonzero_positive [OF assms])
  from many have len: "2 \<le> length ?ks" by (simp only: eq)
  then have ne: "?ks \<noteq> []" by auto
  from len have "length (collect_errors A) \<noteq> 1"
    by (simp add: collect_errors_eq)
  with generate_reports_errors [OF assms(1) ne, of reports]
  have "generate_reports A reports = reports @ [(RPT_ERROR, combined_message (collect_errors A))]"
    by (simp add: Let_def)
  then show "generate_reports A reports =
      reports @ [(RPT_ERROR, ''Inserting keyframes failed:'' @
        concat (map (\<lambda>r. [CHR 0x0A] @ ''- '' @ error_text r (get_count A r))
          (filter (\<lambda>r. get_count A r \<noteq> 0) error_kinds)))]"
    by (simp only: eq combined_message_def combined_message_foldl collect_errors_eq map_map o_def)
qed

theorem generate_reports_policy_witness:
  "generate_reports CombinedKeyingResult_init [] =
     [(RPT_WARNING, ''No keys have been inserted and no errors have been reported.'')]
   \<and> generate_reports (add CombinedKeyingResult_init CANNOT_RESOLVE_PATH 2) [] =
     [(RPT_ERROR, ''Inserting keys on 2 data-block(s) has been skipped because the RNA path wasn't valid for them.'')]
   \<and> generate_reports
       (add (add CombinedKeyingResult_init CANNOT_RESOLVE_PATH 1) ID_NOT_EDITABLE 1) [] =
     [(RPT_ERROR, ''Inserting keyframes failed:'' @ [CHR 0x0A] @
        ''- Inserting keys on 1 data-block(s) has been skipped because they are not editable.''
        @ [CHR 0x0A] @
        ''- Inserting keys on 1 data-block(s) has been skipped because the RNA path wasn't valid for them.'')]"
proof -
  let ?A0 = "CombinedKeyingResult_init"
  let ?A1 = "add CombinedKeyingResult_init CANNOT_RESOLVE_PATH 2"
  let ?A2 = "add (add CombinedKeyingResult_init CANNOT_RESOLVE_PATH 1) ID_NOT_EDITABLE 1"
  have w0: "wf_result ?A0" and n0: "nonneg_counts ?A0" by code_simp+
  have w1: "wf_result ?A1" and n1: "nonneg_counts ?A1" by code_simp+
  have w2: "wf_result ?A2" and n2: "nonneg_counts ?A2" by code_simp+
  have h0: "\<forall>r. get_count ?A0 r = 0"
    by (simp add: get_count_init)
  have h1: "filter (\<lambda>r. get_count ?A1 r \<noteq> 0) error_kinds = [CANNOT_RESOLVE_PATH]"
    by code_simp
  have h2: "2 \<le> length (filter (\<lambda>r. get_count ?A2 r \<noteq> 0) error_kinds)"
    by code_simp
  have v1: "error_text CANNOT_RESOLVE_PATH (get_count ?A1 CANNOT_RESOLVE_PATH) =
      ''Inserting keys on 2 data-block(s) has been skipped because the RNA path wasn't valid for them.''"
    by code_simp
  have v2: "''Inserting keyframes failed:'' @
      concat (map (\<lambda>r. [CHR 0x0A] @ ''- '' @ error_text r (get_count ?A2 r))
        (filter (\<lambda>r. get_count ?A2 r \<noteq> 0) error_kinds)) =
      ''Inserting keyframes failed:'' @ [CHR 0x0A] @
        ''- Inserting keys on 1 data-block(s) has been skipped because they are not editable.''
        @ [CHR 0x0A] @
        ''- Inserting keys on 1 data-block(s) has been skipped because the RNA path wasn't valid for them.''"
    by code_simp
  from generate_reports_policy [OF w0 n0, of "[]"] h0
  have r0: "generate_reports ?A0 [] =
     [(RPT_WARNING, ''No keys have been inserted and no errors have been reported.'')]"
    by simp
  from generate_reports_policy [OF w1 n1, of "[]"] h1
  have r1: "generate_reports ?A1 [] =
      [(RPT_ERROR, error_text CANNOT_RESOLVE_PATH (get_count ?A1 CANNOT_RESOLVE_PATH))]"
    by simp
  from generate_reports_policy [OF w2 n2, of "[]"] h2
  have r2: "generate_reports ?A2 [] = [(RPT_ERROR, ''Inserting keyframes failed:'' @
      concat (map (\<lambda>r. [CHR 0x0A] @ ''- '' @ error_text r (get_count ?A2 r))
        (filter (\<lambda>r. get_count ?A2 r \<noteq> 0) error_kinds)))]"
    by simp
  show ?thesis
    using r0 r1 r2 by (simp only: v1 v2 simp_thms)
qed

text \<open>
  Claim C10. On an aggregate with at least one success and no nonzero count of any
  failure, \<open>generate_reports\<close> emits exactly one report, the warning about an
  unhandled error, rather than nothing.
\<close>

theorem generate_reports_success_only:
  assumes "wf_result A" and "0 < get_count A SUCCESS"
    and "list_all (\<lambda>r. get_count A r = 0) error_kinds"
  shows "generate_reports A reports =
    reports @ [(RPT_WARNING, ''Encountered unhandled error during keyframing'')]"
proof -
  have none: "filter (\<lambda>r. get_count A r > 0) error_kinds = []"
    using assms(3) by (simp add: filter_empty_conv list_all_iff)
  then have "\<not> has_errors A"
    using assms(1) by (simp add: has_errors_iff list_ex_iff filter_empty_conv)
  moreover from none have "collect_errors A = []"
    by (simp add: collect_errors_eq)
  ultimately show ?thesis
    using assms(2) by (simp add: generate_reports_def BKE_report_def)
qed

theorem generate_reports_success_only_witness:
  "wf_result (add CombinedKeyingResult_init SUCCESS 3)
   \<and> 0 < get_count (add CombinedKeyingResult_init SUCCESS 3) SUCCESS
   \<and> list_all (\<lambda>r. get_count (add CombinedKeyingResult_init SUCCESS 3) r = 0) error_kinds
   \<and> generate_reports (add CombinedKeyingResult_init SUCCESS 3) [] =
       [(RPT_WARNING, ''Encountered unhandled error during keyframing'')]"
proof -
  have a: "wf_result (add CombinedKeyingResult_init SUCCESS 3)"
    by code_simp
  have b: "0 < get_count (add CombinedKeyingResult_init SUCCESS 3) SUCCESS"
    by code_simp
  have c: "list_all (\<lambda>r. get_count (add CombinedKeyingResult_init SUCCESS 3) r = 0) error_kinds"
    by code_simp
  from generate_reports_success_only [OF a b c, of "[]"]
  show ?thesis using a b c by simp
qed

section \<open>Claims about single curves\<close>

lemma cycle_type_modifiers:
  "BKE_fcurve_get_cycle_type fcu \<noteq> FCU_CYCLE_NONE \<Longrightarrow> modifiers fcu \<noteq> []"
  by (auto simp: BKE_fcurve_get_cycle_type_def)

text \<open>The exponent that \<open>binade\<close> finds is the one of the binade.\<close>

lemma pow2_powr: "pow2 e = 2 powr (real_of_int e)"
proof (cases "0 \<le> e")
  case True
  then have "2 powr (real_of_int e) = 2 powr (real (nat e))" by simp
  also have "\<dots> = 2 ^ nat e" by (simp add: powr_realpow)
  finally show ?thesis using True by (simp add: pow2_def)
next
  case False
  then have "2 powr (real_of_int e) = 2 powr (- real (nat (- e)))" by simp
  also have "\<dots> = 1 / 2 powr (real (nat (- e)))" by (simp only: powr_minus_divide)
  also have "\<dots> = 1 / 2 ^ nat (- e)" by (simp add: powr_realpow)
  finally show ?thesis using False by (simp add: pow2_def)
qed

lemma pow2_mono: "a \<le> b \<Longrightarrow> pow2 a \<le> pow2 b"
  by (simp add: pow2_powr)

lemma binade_eq:
  "pow2 e \<le> x \<Longrightarrow> x < pow2 (e + 1) \<Longrightarrow> - 126 \<le> e \<Longrightarrow> e \<le> int k - 126 \<Longrightarrow> binade x k = e"
proof (induction k)
  case 0
  then show ?case by simp
next
  case (Suc k)
  show ?case
  proof (cases "pow2 (int (Suc k) - 126) \<le> x")
    case True
    have "\<not> e < int (Suc k) - 126"
    proof
      assume "e < int (Suc k) - 126"
      then have "pow2 (e + 1) \<le> pow2 (int (Suc k) - 126)"
        by (intro pow2_mono) simp
      with True Suc.prems(2) show False by simp
    qed
    with Suc.prems(4) have "int (Suc k) - 126 = e" by simp
    with True show ?thesis by simp
  next
    case False
    with Suc.prems(1) have "e \<noteq> int (Suc k) - 126" by auto
    with Suc.prems(4) have "e \<le> int k - 126" by simp
    with Suc.IH Suc.prems False show ?thesis by simp
  qed
qed

lemma binade_subnormal: "x < pow2 (- 126) \<Longrightarrow> binade x k = - 126"
proof (induction k)
  case 0
  then show ?case by simp
next
  case (Suc k)
  have "pow2 (- 126) \<le> pow2 (int (Suc k) - 126)"
    by (intro pow2_mono) simp
  with Suc show ?case by simp
qed

lemma exponent32_eq:
  "pow2 e \<le> \<bar>x\<bar> \<Longrightarrow> \<bar>x\<bar> < pow2 (e + 1) \<Longrightarrow> - 126 \<le> e \<Longrightarrow> e \<le> 127 \<Longrightarrow> exponent32 x = e"
  unfolding exponent32_def by (rule binade_eq) simp_all

lemma exponent32_subnormal: "\<bar>x\<bar> < pow2 (- 126) \<Longrightarrow> exponent32 x = - 126"
  unfolding exponent32_def by (rule binade_subnormal)

text \<open>
  Rounding in the binade with the exponent \<open>e\<close> goes to a multiple of
  \<open>2 ^ (e - 23)\<close>, and rounding of a subnormal number to a multiple of
  \<open>2 ^ -149\<close>.
\<close>

lemma round_binary32_eq:
  assumes "pow2 e \<le> \<bar>x\<bar>" and "\<bar>x\<bar> < pow2 (e + 1)" and "- 126 \<le> e" and "e \<le> 127"
    and "\<bar>x\<bar> < 2 ^ 128 - 2 ^ 103"
  shows "round_binary32 x =
           Finite (real_of_int (round_half_even (x / pow2 (e - 23))) * pow2 (e - 23))"
  using assms(5) by (simp add: round_binary32_def Let_def exponent32_eq [OF assms(1-4)])

lemma round_binary32_subnormal:
  assumes "\<bar>x\<bar> < pow2 (- 126)"
  shows "round_binary32 x = Finite (real_of_int (round_half_even (x * 2 ^ 149)) / 2 ^ 149)"
proof -
  have "pow2 (- 126) \<le> pow2 127" by (intro pow2_mono) simp
  with assms have "\<bar>x\<bar> < 2 ^ 128 - 2 ^ 103" by (simp add: pow2_def)
  then show ?thesis
    by (simp add: round_binary32_def Let_def exponent32_subnormal [OF assms] pow2_def)
qed

text \<open>
  Some values of the rounding: zero, one tenth, two ties, the largest finite value, the
  overflow and the subnormal numbers.
\<close>

lemma round_binary32_zero: "round_binary32 0 = Finite 0"
  by (simp add: round_binary32_subnormal pow2_def round_half_even_def)

lemma round_binary32_tenth: "round_binary32 (1 / 10) = Finite (13421773 / 134217728)"
  by (simp add: round_binary32_eq [where e = "- 4"] pow2_def round_half_even_def)

lemma round_binary32_tie_down: "round_binary32 (1 + 1 / 2 ^ 24) = Finite 1"
  by (simp add: round_binary32_eq [where e = 0] pow2_def round_half_even_def)

lemma round_binary32_tie_up: "round_binary32 (1 + 3 / 2 ^ 24) = Finite (1 + 1 / 2 ^ 22)"
  by (simp add: round_binary32_eq [where e = 0] pow2_def round_half_even_def)

lemma round_binary32_largest:
  "round_binary32 (2 ^ 128 - 2 ^ 103 - 1) = Finite (2 ^ 128 - 2 ^ 104)"
  by (simp add: round_binary32_eq [where e = 127] pow2_def round_half_even_def)

lemma round_binary32_overflow: "round_binary32 (2 ^ 128 - 2 ^ 103) = PlusInfinity"
  by (simp add: round_binary32_def)

lemma round_binary32_smallest: "round_binary32 (3 / 2 ^ 150) = Finite (1 / 2 ^ 148)"
  by (simp add: round_binary32_subnormal pow2_def round_half_even_def)

text \<open>The roundings of the two examples and of a time near \<open>10 ^ 8\<close>.\<close>

lemma round_binary32_3: "round_binary32 3 = Finite 3"
  by (simp add: round_binary32_eq [where e = 1] pow2_def round_half_even_def)

lemma round_binary32_7: "round_binary32 7 = Finite 7"
  by (simp add: round_binary32_eq [where e = 2] pow2_def round_half_even_def)

lemma round_binary32_10: "round_binary32 10 = Finite 10"
  by (simp add: round_binary32_eq [where e = 3] pow2_def round_half_even_def)

lemma round_binary32_20: "round_binary32 20 = Finite 20"
  by (simp add: round_binary32_eq [where e = 4] pow2_def round_half_even_def)

lemma round_binary32_23: "round_binary32 23 = Finite 23"
  by (simp add: round_binary32_eq [where e = 4] pow2_def round_half_even_def)

lemma round_binary32_23_10: "round_binary32 (23 / 10) = Finite (9646899 / 4194304)"
  by (simp add: round_binary32_eq [where e = 1] pow2_def round_half_even_def)

lemma round_binary32_minus_7: "round_binary32 (- 7) = Finite (- 7)"
  by (simp add: round_binary32_eq [where e = 2] pow2_def round_half_even_def)

lemma round_binary32_minus_10: "round_binary32 (- 10) = Finite (- 10)"
  by (simp add: round_binary32_eq [where e = 3] pow2_def round_half_even_def)

lemma round_binary32_minus_7_10:
  "round_binary32 (- (7 / 10)) = Finite (- (11744051 / 16777216))"
  by (simp add: round_binary32_eq [where e = "- 1"] pow2_def round_half_even_def)

lemma round_binary32_100000008: "round_binary32 100000008 = Finite 100000008"
  by (simp add: round_binary32_eq [where e = 26] pow2_def round_half_even_def)

lemma round_binary32_10000000_8: "round_binary32 (50000004 / 5) = Finite 10000001"
  by (simp add: round_binary32_eq [where e = 23] pow2_def round_half_even_def)

lemma round_binary32_100000010: "round_binary32 100000010 = Finite 100000008"
  by (simp add: round_binary32_eq [where e = 26] pow2_def round_half_even_def)

lemmas round_binary32_steps =
  round_binary32_zero round_binary32_3 round_binary32_7 round_binary32_10 round_binary32_20
  round_binary32_23 round_binary32_23_10 round_binary32_minus_7 round_binary32_minus_10
  round_binary32_minus_7_10 round_binary32_100000008 round_binary32_10000000_8
  round_binary32_100000010

lemma remap_cyclic_float_none:
  assumes "totvert fcu < 2 \<or> bezt fcu = [] \<or> modifiers fcu = []
      \<or> BKE_fcurve_get_cycle_type fcu = FCU_CYCLE_NONE
      \<or> fst (vec1 (bezt fcu ! (totvert fcu - 1))) \<le> fst (vec1 (bezt fcu ! 0))"
  shows "remap_cyclic_keyframe_location_float fcu t v = (FCU_CYCLE_NONE, t, v)"
proof -
  have "modifiers fcu = [] \<Longrightarrow> BKE_fcurve_get_cycle_type fcu = FCU_CYCLE_NONE"
    by (simp add: BKE_fcurve_get_cycle_type_def)
  with assms show ?thesis
    by (auto simp: remap_cyclic_keyframe_location_float_def Let_def)
qed

lemma remap_cyclic_float_outside:
  assumes "2 \<le> totvert fcu" and "bezt fcu \<noteq> []"
    and "BKE_fcurve_get_cycle_type fcu \<noteq> FCU_CYCLE_NONE"
    and "fst (vec1 (bezt fcu ! 0)) < fst (vec1 (bezt fcu ! (totvert fcu - 1)))"
    and "float_lt t (Finite (fst (vec1 (bezt fcu ! 0))))
       \<or> float_gt t (Finite (fst (vec1 (bezt fcu ! (totvert fcu - 1)))))"
    and "period = float_sub (Finite (fst (vec1 (bezt fcu ! (totvert fcu - 1)))))
                            (Finite (fst (vec1 (bezt fcu ! 0))))"
    and "step = floorf (float_div (float_sub t (Finite (fst (vec1 (bezt fcu ! 0))))) period)"
  shows "remap_cyclic_keyframe_location_float fcu t v =
           (BKE_fcurve_get_cycle_type fcu,
            float_sub t (float_mul step period),
            if BKE_fcurve_get_cycle_type fcu = FCU_CYCLE_OFFSET
               \<and> (if float_ge step (Finite 0) then after_mode (fmod_data (hd (modifiers fcu)))
                   else before_mode (fmod_data (hd (modifiers fcu))))
                 = FCM_EXTRAPOLATE_CYCLIC_OFFSET
            then float_sub v
                   (float_mul step
                      (float_sub (Finite (snd (vec1 (bezt fcu ! (totvert fcu - 1)))))
                                 (Finite (snd (vec1 (bezt fcu ! 0))))))
            else v)"
proof -
  from assms(3) have "modifiers fcu \<noteq> []"
    by (rule cycle_type_modifiers)
  then obtain fcm rest where m: "modifiers fcu = fcm # rest"
    by (cases "modifiers fcu") auto
  from assms(1-5) show ?thesis
    unfolding assms(6,7)
    by (simp add: remap_cyclic_keyframe_location_float_def Let_def m not_le)
qed

lemma remap_cyclic_float_inside:
  assumes "2 \<le> totvert fcu" and "bezt fcu \<noteq> []"
    and "BKE_fcurve_get_cycle_type fcu \<noteq> FCU_CYCLE_NONE"
    and "fst (vec1 (bezt fcu ! 0)) < fst (vec1 (bezt fcu ! (totvert fcu - 1)))"
    and "\<not> float_lt t (Finite (fst (vec1 (bezt fcu ! 0))))"
    and "\<not> float_gt t (Finite (fst (vec1 (bezt fcu ! (totvert fcu - 1)))))"
  shows "remap_cyclic_keyframe_location_float fcu t v = (BKE_fcurve_get_cycle_type fcu, t, v)"
  using assms
  by (simp add: remap_cyclic_keyframe_location_float_def Let_def not_le)

lemma remap_cyclic_float_two_points:
  assumes "bezt fcu = [b0, b1]" and "fst (vec1 b0) = 0" and "fst (vec1 b1) = 10"
    and "BKE_fcurve_get_cycle_type fcu \<noteq> FCU_CYCLE_NONE"
  shows "fst (snd (remap_cyclic_keyframe_location_float fcu (Finite 23) v)) = Finite 3"
    and "fst (snd (remap_cyclic_keyframe_location_float fcu (Finite (- 7)) v)) = Finite 3"
proof -
  have c: "2 \<le> totvert fcu" "bezt fcu \<noteq> []"
    "fst (vec1 (bezt fcu ! 0)) < fst (vec1 (bezt fcu ! (totvert fcu - 1)))"
    and z: "fst (vec1 (bezt fcu ! 0)) = 0" "fst (vec1 (bezt fcu ! (totvert fcu - 1))) = 10"
    using assms(1-3) by (simp_all add: totvert_def)
  have "float_lt (Finite 23) (Finite (fst (vec1 (bezt fcu ! 0))))
       \<or> float_gt (Finite 23) (Finite (fst (vec1 (bezt fcu ! (totvert fcu - 1)))))"
    unfolding z by (simp add: float_gt_def)
  from remap_cyclic_float_outside [OF c(1,2) assms(4) c(3) this refl refl, of v]
  show "fst (snd (remap_cyclic_keyframe_location_float fcu (Finite 23) v)) = Finite 3"
    unfolding z by (simp add: round_binary32_steps)
  have "float_lt (Finite (- 7)) (Finite (fst (vec1 (bezt fcu ! 0))))
       \<or> float_gt (Finite (- 7)) (Finite (fst (vec1 (bezt fcu ! (totvert fcu - 1)))))"
    unfolding z by simp
  from remap_cyclic_float_outside [OF c(1,2) assms(4) c(3) this refl refl, of v]
  show "fst (snd (remap_cyclic_keyframe_location_float fcu (Finite (- 7)) v)) = Finite 3"
    unfolding z by (simp add: round_binary32_steps)
qed

text \<open>
  Where no operation rounds and the quotient has the floor of the exact quotient, the
  time that the remapper returns is the one of the exact formula.
\<close>

lemma remap_cyclic_float_exact_time:
  assumes "2 \<le> totvert fcu" and "bezt fcu \<noteq> []"
    and "BKE_fcurve_get_cycle_type fcu \<noteq> FCU_CYCLE_NONE"
    and "t_first = fst (vec1 (bezt fcu ! 0))"
    and "t_last = fst (vec1 (bezt fcu ! (totvert fcu - 1)))"
    and "t_first < t_last" and "x < t_first \<or> t_last < x"
    and "period = t_last - t_first"
    and "step = real_of_int \<lfloor>(x - t_first) / period\<rfloor>"
    and "float_sub (Finite t_last) (Finite t_first) = Finite period"
    and "floorf (float_div (float_sub (Finite x) (Finite t_first)) (Finite period)) = Finite step"
    and "float_mul (Finite step) (Finite period) = Finite (step * period)"
    and "float_sub (Finite x) (Finite (step * period)) = Finite (x - step * period)"
  shows "fst (snd (remap_cyclic_keyframe_location_float fcu (Finite x) v))
           = Finite (x - period * step)"
proof -
  have out: "float_lt (Finite x) (Finite (fst (vec1 (bezt fcu ! 0))))
       \<or> float_gt (Finite x) (Finite (fst (vec1 (bezt fcu ! (totvert fcu - 1)))))"
    using assms(7) by (simp add: assms(4,5) float_gt_def)
  have lt: "fst (vec1 (bezt fcu ! 0)) < fst (vec1 (bezt fcu ! (totvert fcu - 1)))"
    using assms(6) by (simp add: assms(4,5))
  from remap_cyclic_float_outside [OF assms(1-3) lt out refl refl, of v]
  show ?thesis
    using assms(10-13) by (simp add: assms(4,5) mult.commute)
qed

text \<open>
  Under the same conditions the remapper in the arithmetic of \<open>float\<close> returns the
  time of the remapper in exact arithmetic.
\<close>

lemma remap_cyclic_float_agrees:
  assumes "2 \<le> totvert fcu" and "bezt fcu \<noteq> []"
    and "BKE_fcurve_get_cycle_type fcu \<noteq> FCU_CYCLE_NONE"
    and "t_first = fst (vec1 (bezt fcu ! 0))"
    and "t_last = fst (vec1 (bezt fcu ! (totvert fcu - 1)))"
    and "t_first < t_last" and "x < t_first \<or> t_last < x"
    and "period = t_last - t_first"
    and "step = real_of_int \<lfloor>(x - t_first) / period\<rfloor>"
    and "float_sub (Finite t_last) (Finite t_first) = Finite period"
    and "floorf (float_div (float_sub (Finite x) (Finite t_first)) (Finite period)) = Finite step"
    and "float_mul (Finite step) (Finite period) = Finite (step * period)"
    and "float_sub (Finite x) (Finite (step * period)) = Finite (x - step * period)"
  shows "fst (snd (remap_cyclic_keyframe_location_float fcu (Finite x) v))
           = Finite (fst (snd (remap_cyclic_keyframe_location fcu x y)))"
proof -
  from assms(3) have "modifiers fcu \<noteq> []"
    by (rule cycle_type_modifiers)
  then obtain fcm rest where m: "modifiers fcu = fcm # rest"
    by (cases "modifiers fcu") auto
  have "fst (snd (remap_cyclic_keyframe_location fcu x y)) = x - period * step"
    using assms(1-3,6,7)
    by (simp add: remap_cyclic_keyframe_location_def Let_def m not_le assms(4,5,8,9)
        mult.commute)
  with remap_cyclic_float_exact_time [OF assms, of v] show ?thesis
    by simp
qed

text \<open>
  Claim C2, as the code has it. The curve of two keyframes at the times 0 and 10 under a
  regular cycle is asked for the time 100000008, which is a value of the format. The
  formula of the claim gives the time 8. The code returns the time 0: the quotient
  10000000.8 rounds to 10000001, and the product 100000010 rounds to 100000008. A
  sampled curve with two samples and a cycle modifier, whose last sample is after its
  first, has no array of keyframes: the code returns the type none and leaves the time
  23 alone, where the claim lets it fold the time back.
\<close>

theorem remap_cyclic_keyframe_location_float_inexact:
  "round_binary32 100000008 = Finite 100000008
   \<and> remap_cyclic_keyframe_location_float two_point_curve (Finite 100000008) (Finite 0)
       = (FCU_CYCLE_PERFECT, Finite 0, Finite 0)
   \<and> (100000008 :: real) - (10 - 0) * real_of_int \<lfloor>(100000008 - 0) / (10 - 0 :: real)\<rfloor> = 8
   \<and> totvert sampled_curve = 2
   \<and> BKE_fcurve_get_cycle_type sampled_curve = FCU_CYCLE_PERFECT
   \<and> fst (fpt sampled_curve ! 0) < fst (fpt sampled_curve ! 1)
   \<and> remap_cyclic_keyframe_location_float sampled_curve (Finite 23) (Finite 0)
       = (FCU_CYCLE_NONE, Finite 23, Finite 0)"
proof -
  have "round_binary32 100000008 = Finite 100000008"
    by (rule round_binary32_100000008)
  moreover have "remap_cyclic_keyframe_location_float two_point_curve (Finite 100000008) (Finite 0)
       = (FCU_CYCLE_PERFECT, Finite 0, Finite 0)"
    by (simp add: remap_cyclic_keyframe_location_float_def two_point_curve_def
        example_cycles_modifier_def totvert_def BKE_fcurve_get_cycle_type_def float_gt_def
        Let_def round_binary32_steps)
  moreover have "(100000008 :: real) - (10 - 0) * real_of_int \<lfloor>(100000008 - 0) / (10 - 0 :: real)\<rfloor> = 8"
    by simp
  moreover have "totvert sampled_curve = 2"
    and "BKE_fcurve_get_cycle_type sampled_curve = FCU_CYCLE_PERFECT"
    and "fst (fpt sampled_curve ! 0) < fst (fpt sampled_curve ! 1)"
    by (simp_all add: sampled_curve_def two_point_curve_def example_cycles_modifier_def
        totvert_def BKE_fcurve_get_cycle_type_def)
  moreover have "remap_cyclic_keyframe_location_float sampled_curve (Finite 23) (Finite 0)
       = (FCU_CYCLE_NONE, Finite 23, Finite 0)"
    by (simp add: remap_cyclic_keyframe_location_float_def sampled_curve_def)
  ultimately show ?thesis by simp
qed

text \<open>
  Claim C2, amended. \<open>remap_cyclic_keyframe_location\<close> returns the cycle type none and
  leaves the time and the value as they are when the curve has fewer than two points or
  no array of keyframes, has no cycle modifier (or a cycle type of none), or the time of
  its last keyframe is not after the time of its first keyframe. Otherwise a time
  \<open>t\<close> outside of the range of the curve becomes \<open>t - step * period\<close> with
  \<open>period = last time - first time\<close> and \<open>step = floor ((t - start) / period)\<close>,
  where every operation is the one of \<open>float\<close> and rounds its result; the value is
  reduced by \<open>step * (last value - first value)\<close>, in the same arithmetic, exactly
  when the cycle accumulates offsets and the extrapolation mode of the side in question
  (after the range for a step that is not negative, before it otherwise) is the cyclic
  offset; a time that is not outside of the range is left alone. On a curve of two
  keyframes at the times 0 and 10 the times 23 and -7 both become 3.
\<close>

theorem remap_cyclic_keyframe_location_float_correct:
  assumes "t_first = fst (vec1 (bezt fcu ! 0))"
    and "t_last = fst (vec1 (bezt fcu ! (totvert fcu - 1)))"
    and "period = float_sub (Finite t_last) (Finite t_first)"
    and "step = floorf (float_div (float_sub t (Finite t_first)) period)"
    and "delta = float_sub (Finite (snd (vec1 (bezt fcu ! (totvert fcu - 1)))))
                           (Finite (snd (vec1 (bezt fcu ! 0))))"
    and "mode = (if float_ge step (Finite 0) then after_mode (fmod_data (hd (modifiers fcu)))
                 else before_mode (fmod_data (hd (modifiers fcu))))"
  shows "(totvert fcu < 2 \<or> bezt fcu = [] \<or> modifiers fcu = []
            \<or> BKE_fcurve_get_cycle_type fcu = FCU_CYCLE_NONE \<or> t_last \<le> t_first
          \<longrightarrow> remap_cyclic_keyframe_location_float fcu t v = (FCU_CYCLE_NONE, t, v))
       \<and> (2 \<le> totvert fcu \<and> bezt fcu \<noteq> [] \<and> BKE_fcurve_get_cycle_type fcu \<noteq> FCU_CYCLE_NONE
            \<and> t_first < t_last \<and> (float_lt t (Finite t_first) \<or> float_gt t (Finite t_last))
          \<longrightarrow> remap_cyclic_keyframe_location_float fcu t v =
               (BKE_fcurve_get_cycle_type fcu,
                float_sub t (float_mul step period),
                if BKE_fcurve_get_cycle_type fcu = FCU_CYCLE_OFFSET
                   \<and> mode = FCM_EXTRAPOLATE_CYCLIC_OFFSET
                then float_sub v (float_mul step delta) else v))
       \<and> (2 \<le> totvert fcu \<and> bezt fcu \<noteq> [] \<and> BKE_fcurve_get_cycle_type fcu \<noteq> FCU_CYCLE_NONE
            \<and> t_first < t_last \<and> \<not> float_lt t (Finite t_first) \<and> \<not> float_gt t (Finite t_last)
          \<longrightarrow> remap_cyclic_keyframe_location_float fcu t v = (BKE_fcurve_get_cycle_type fcu, t, v))
       \<and> (\<forall>b0 b1 w. bezt fcu = [b0, b1] \<and> fst (vec1 b0) = 0 \<and> fst (vec1 b1) = 10
            \<and> BKE_fcurve_get_cycle_type fcu \<noteq> FCU_CYCLE_NONE
          \<longrightarrow> fst (snd (remap_cyclic_keyframe_location_float fcu (Finite 23) w)) = Finite 3
              \<and> fst (snd (remap_cyclic_keyframe_location_float fcu (Finite (- 7)) w)) = Finite 3)"
proof (intro conjI impI allI)
  assume "totvert fcu < 2 \<or> bezt fcu = [] \<or> modifiers fcu = []
            \<or> BKE_fcurve_get_cycle_type fcu = FCU_CYCLE_NONE \<or> t_last \<le> t_first"
  then show "remap_cyclic_keyframe_location_float fcu t v = (FCU_CYCLE_NONE, t, v)"
    unfolding assms(1,2) by (rule remap_cyclic_float_none)
next
  assume h: "2 \<le> totvert fcu \<and> bezt fcu \<noteq> [] \<and> BKE_fcurve_get_cycle_type fcu \<noteq> FCU_CYCLE_NONE
            \<and> t_first < t_last \<and> (float_lt t (Finite t_first) \<or> float_gt t (Finite t_last))"
  then have c: "2 \<le> totvert fcu" "bezt fcu \<noteq> []"
    "BKE_fcurve_get_cycle_type fcu \<noteq> FCU_CYCLE_NONE"
    "fst (vec1 (bezt fcu ! 0)) < fst (vec1 (bezt fcu ! (totvert fcu - 1)))"
    "float_lt t (Finite (fst (vec1 (bezt fcu ! 0))))
       \<or> float_gt t (Finite (fst (vec1 (bezt fcu ! (totvert fcu - 1)))))"
    by (simp_all add: assms(1,2))
  from remap_cyclic_float_outside [OF c refl refl, of v]
  show "remap_cyclic_keyframe_location_float fcu t v =
               (BKE_fcurve_get_cycle_type fcu,
                float_sub t (float_mul step period),
                if BKE_fcurve_get_cycle_type fcu = FCU_CYCLE_OFFSET
                   \<and> mode = FCM_EXTRAPOLATE_CYCLIC_OFFSET
                then float_sub v (float_mul step delta) else v)"
    by (simp add: assms)
next
  assume h: "2 \<le> totvert fcu \<and> bezt fcu \<noteq> [] \<and> BKE_fcurve_get_cycle_type fcu \<noteq> FCU_CYCLE_NONE
            \<and> t_first < t_last \<and> \<not> float_lt t (Finite t_first) \<and> \<not> float_gt t (Finite t_last)"
  then show "remap_cyclic_keyframe_location_float fcu t v = (BKE_fcurve_get_cycle_type fcu, t, v)"
    by (simp add: assms(1,2) remap_cyclic_float_inside)
next
  fix b0 b1 w
  assume "bezt fcu = [b0, b1] \<and> fst (vec1 b0) = 0 \<and> fst (vec1 b1) = 10
            \<and> BKE_fcurve_get_cycle_type fcu \<noteq> FCU_CYCLE_NONE"
  then show "fst (snd (remap_cyclic_keyframe_location_float fcu (Finite 23) w)) = Finite 3"
    by (simp add: remap_cyclic_float_two_points(1))
next
  fix b0 b1 w
  assume "bezt fcu = [b0, b1] \<and> fst (vec1 b0) = 0 \<and> fst (vec1 b1) = 10
            \<and> BKE_fcurve_get_cycle_type fcu \<noteq> FCU_CYCLE_NONE"
  then show "fst (snd (remap_cyclic_keyframe_location_float fcu (Finite (- 7)) w)) = Finite 3"
    by (simp add: remap_cyclic_float_two_points(2))
qed

theorem remap_cyclic_keyframe_location_float_correct_witness:
  "remap_cyclic_keyframe_location_float two_point_curve (Finite 23) (Finite 0)
     = (FCU_CYCLE_PERFECT, Finite 3, Finite 0)
   \<and> remap_cyclic_keyframe_location_float two_point_curve (Finite (- 7)) (Finite 0)
     = (FCU_CYCLE_PERFECT, Finite 3, Finite 0)
   \<and> remap_cyclic_keyframe_location_float two_point_curve (Finite 7) (Finite 0)
     = (FCU_CYCLE_PERFECT, Finite 7, Finite 0)
   \<and> remap_cyclic_keyframe_location_float sampled_curve (Finite 23) (Finite 0)
     = (FCU_CYCLE_NONE, Finite 23, Finite 0)"
proof -
  note defs = two_point_curve_def sampled_curve_def example_cycles_modifier_def totvert_def
    BKE_fcurve_get_cycle_type_def
  have c: "2 \<le> totvert two_point_curve" "bezt two_point_curve \<noteq> []"
    "BKE_fcurve_get_cycle_type two_point_curve = FCU_CYCLE_PERFECT"
    "fst (vec1 (bezt two_point_curve ! 0)) = 0"
    "fst (vec1 (bezt two_point_curve ! (totvert two_point_curve - 1))) = 10"
    by (simp_all add: defs)
  have n: "totvert sampled_curve = 2" "modifiers sampled_curve \<noteq> []"
    "bezt sampled_curve = []"
    by (simp_all add: defs)
  from remap_cyclic_keyframe_location_float_correct [OF refl refl refl refl refl refl,
      where fcu = two_point_curve and t = "Finite 23" and v = "Finite 0"] c
  have r1: "remap_cyclic_keyframe_location_float two_point_curve (Finite 23) (Finite 0)
      = (FCU_CYCLE_PERFECT, Finite 3, Finite 0)"
    by (simp add: float_gt_def round_binary32_steps)
  from remap_cyclic_keyframe_location_float_correct [OF refl refl refl refl refl refl,
      where fcu = two_point_curve and t = "Finite (- 7)" and v = "Finite 0"] c
  have r2: "remap_cyclic_keyframe_location_float two_point_curve (Finite (- 7)) (Finite 0)
      = (FCU_CYCLE_PERFECT, Finite 3, Finite 0)"
    by (simp add: float_gt_def round_binary32_steps)
  from remap_cyclic_keyframe_location_float_correct [OF refl refl refl refl refl refl,
      where fcu = two_point_curve and t = "Finite 7" and v = "Finite 0"] c
  have r3: "remap_cyclic_keyframe_location_float two_point_curve (Finite 7) (Finite 0)
      = (FCU_CYCLE_PERFECT, Finite 7, Finite 0)"
    by (simp add: float_gt_def)
  from remap_cyclic_keyframe_location_float_correct [OF refl refl refl refl refl refl,
      where fcu = sampled_curve and t = "Finite 23" and v = "Finite 0"] n
  have r4: "remap_cyclic_keyframe_location_float sampled_curve (Finite 23) (Finite 0)
      = (FCU_CYCLE_NONE, Finite 23, Finite 0)"
    by simp
  from r1 r2 r3 r4 show ?thesis by simp
qed

text \<open>
  Claim C6. For every curve that is locked (protected) or sampled,
  \<open>insert_keyframe_value\<close> returns \<open>FCURVE_NOT_KEYFRAMEABLE\<close> and the curve after the
  call is the curve before the call: no point is inserted or changed.
\<close>

theorem insert_keyframe_value_not_keyframeable:
  assumes "fpt fcu \<noteq> [] \<or> BKE_fcurve_is_protected fcu"
  shows "insert_keyframe_value ops fcu cfra curval keytype flag = (FCURVE_NOT_KEYFRAMEABLE, fcu)"
  using assms by (simp add: insert_keyframe_value_def BKE_fcurve_is_keyframable_def)

theorem insert_keyframe_value_not_keyframeable_witness:
  "BKE_fcurve_is_protected locked_curve
   \<and> fpt sampled_curve \<noteq> []
   \<and> insert_keyframe_value example_curve_ops locked_curve 3 1 BEZT_KEYTYPE_KEYFRAME {} =
       (FCURVE_NOT_KEYFRAMEABLE, locked_curve)
   \<and> insert_keyframe_value example_curve_ops sampled_curve 3 1 BEZT_KEYTYPE_KEYFRAME {} =
       (FCURVE_NOT_KEYFRAMEABLE, sampled_curve)
   \<and> fst (insert_keyframe_value example_curve_ops two_point_curve 3 1 BEZT_KEYTYPE_KEYFRAME {})
       = SUCCESS"
proof -
  have a: "BKE_fcurve_is_protected locked_curve"
    by (simp add: BKE_fcurve_is_protected_def locked_curve_def)
  have b: "fpt sampled_curve \<noteq> []"
    by (simp add: sampled_curve_def)
  have c: "fst (insert_keyframe_value example_curve_ops two_point_curve 3 1
      BEZT_KEYTYPE_KEYFRAME {}) = SUCCESS"
    by (simp add: insert_keyframe_value_def BKE_fcurve_is_keyframable_def
        BKE_fcurve_is_protected_def two_point_curve_def example_curve_ops_def
        example_insert_vert_fcurve_def)
  from a have a': "fpt locked_curve \<noteq> [] \<or> BKE_fcurve_is_protected locked_curve" ..
  from b have b': "fpt sampled_curve \<noteq> [] \<or> BKE_fcurve_is_protected sampled_curve" ..
  from insert_keyframe_value_not_keyframeable [OF a']
    insert_keyframe_value_not_keyframeable [OF b'] a b c
  show ?thesis by simp
qed

section \<open>The legacy insertion path: lemmas\<close>

lemma force_first_success_spec:
  "force_first_success ops rna prop grp rna_path frame values successful_remaps keytype flag
     channels st =
   spec_first_success
     (\<lambda>i st. insert_channel ops rna prop grp rna_path frame values keytype flag i st)
     (filter (\<lambda>i. successful_remaps ! i) channels) st"
  by (induction channels arbitrary: st) (auto split: prod.splits)

lemma insert_channels_foldl:
  "insert_channels ops rna prop grp rna_path frame values successful_remaps keytype flag exclude
     channels st =
   foldl (\<lambda>st i. fst (insert_channel ops rna prop grp rna_path frame values keytype flag i st)) st
     (filter (\<lambda>i. Some i \<noteq> exclude) (filter (\<lambda>i. successful_remaps ! i) channels))"
  by (induction channels arbitrary: st) auto

lemma insert_keyframe_force_all_general:
  assumes "BKE_id_is_editable animated_id"
    and "RNA_path_resolve_property rna rna_path = Some prop"
    and "id_action_ensure new_action animated_id = (Some act, id1)"
    and "BKE_animsys_nla_remap_keyframe_values rna prop
           (get_keyframe_values rna prop (INSERTKEY_MATRIX \<in> flag)) array_index True =
         (values, True, successful_remaps)"
    and "flag \<inter> {INSERTKEY_REPLACE, INSERTKEY_AVAILABLE} \<noteq> {}"
  shows "insert_keyframe ops rna new_action animated_id grp rna_path array_index eval_time
           keytype flag =
         (case spec_force_all_insert
                 (\<lambda>flag i st. insert_channel ops rna prop grp rna_path
                    (nla_time_remap rna eval_time True) values keytype flag i st)
                 flag (filter (\<lambda>i. successful_remaps ! i) [0..<length values])
                 (CombinedKeyingResult_init, 0, act) of
            (combined_result, key_count, act') \<Rightarrow>
              (combined_result, store_action id1 act',
               if key_count > 0 then [DEG_TAG_ACTION] else []))"
  using assms
  by (simp add: insert_keyframe_def Let_def force_first_success_spec insert_channels_foldl
      spec_force_all_insert_def split: prod.splits option.splits)

lemma scenario_first:
  "fst (spec_first_success
          (\<lambda>i st. insert_channel example_curve_ops example_rna_ops () None ''location'' 5
             [1, 2, 3] BEZT_KEYTYPE_KEYFRAME {INSERTKEY_REPLACE} i st)
          [0, 1, 2] (CombinedKeyingResult_init, 0, channel_1_action)) = Some 1"
  by code_simp

lemma scenario_result:
  "(case insert_keyframe example_curve_ops example_rna_ops empty_action example_id None
           ''location'' 0 5 BEZT_KEYTYPE_KEYFRAME {INSERTKEY_REPLACE} of
      (combined_result, animated_id, tags) \<Rightarrow>
        (get_count combined_result SUCCESS, get_count combined_result CANNOT_CREATE_FCURVE,
         channel_key_times animated_id, tags)) =
   (3, 1, [(1, [1, 5]), (0, [5]), (2, [5])], [DEG_TAG_ACTION])"
  by code_simp











section \<open>Claims about the legacy orchestrator\<close>

text \<open>
  Claim C1. In \<open>insert_keyframe\<close>, when the NLA remapping sets the flag that forces all
  channels and the insertion flags hold the replace-only or the available-only policy, the
  channels that were remapped are attempted in ascending order under the restrictive policy
  until the first success; after that the two flags are dropped and every other channel
  that was remapped is written under the relaxed policy. This is the rule of the spec,
  \<open>spec_force_all_insert\<close>, run on the channels that the mask lets through. In the run
  with three channels of which only channel 1 has a curve, channel 1 is the first to
  succeed, the channels 0 and 2 are written afterwards, and every channel ends up with
  exactly one new key, at the frame of the call.
\<close>

theorem insert_keyframe_force_all:
  assumes "BKE_id_is_editable animated_id"
    and "RNA_path_resolve_property rna rna_path = Some prop"
    and "id_action_ensure new_action animated_id = (Some act, id1)"
    and "BKE_animsys_nla_remap_keyframe_values rna prop
           (get_keyframe_values rna prop (INSERTKEY_MATRIX \<in> flag)) array_index True =
         (values, True, successful_remaps)"
    and "flag \<inter> {INSERTKEY_REPLACE, INSERTKEY_AVAILABLE} \<noteq> {}"
  shows "insert_keyframe ops rna new_action animated_id grp rna_path array_index eval_time
           keytype flag =
         (case spec_force_all_insert
                 (\<lambda>flag i st. insert_channel ops rna prop grp rna_path
                    (nla_time_remap rna eval_time True) values keytype flag i st)
                 flag (filter (\<lambda>i. successful_remaps ! i) [0..<length values])
                 (CombinedKeyingResult_init, 0, act) of
            (combined_result, key_count, act') \<Rightarrow>
              (combined_result, store_action id1 act',
               if key_count > 0 then [DEG_TAG_ACTION] else []))
       \<and> fst (spec_first_success
            (\<lambda>i st. insert_channel example_curve_ops example_rna_ops () None ''location'' 5
               [1, 2, 3] BEZT_KEYTYPE_KEYFRAME {INSERTKEY_REPLACE} i st)
            [0, 1, 2] (CombinedKeyingResult_init, 0, channel_1_action)) = Some 1
       \<and> (case insert_keyframe example_curve_ops example_rna_ops empty_action example_id None
                  ''location'' 0 5 BEZT_KEYTYPE_KEYFRAME {INSERTKEY_REPLACE} of
             (combined_result, animated_id, tags) \<Rightarrow>
               (get_count combined_result SUCCESS,
                get_count combined_result CANNOT_CREATE_FCURVE,
                channel_key_times animated_id, tags)) =
          (3, 1, [(1, [1, 5]), (0, [5]), (2, [5])], [DEG_TAG_ACTION])"
  using insert_keyframe_force_all_general [OF assms] scenario_first scenario_result
  by simp

theorem insert_keyframe_force_all_witness:
  "BKE_id_is_editable example_id
   \<and> RNA_path_resolve_property example_rna_ops ''location'' = Some ()
   \<and> id_action_ensure empty_action example_id = (Some channel_1_action, example_id)
   \<and> BKE_animsys_nla_remap_keyframe_values example_rna_ops ()
        (get_keyframe_values example_rna_ops () (INSERTKEY_MATRIX \<in> {INSERTKEY_AVAILABLE})) 2 True =
      ([1, 2, 3], True, [True, True, True])
   \<and> {INSERTKEY_AVAILABLE} \<inter> {INSERTKEY_REPLACE, INSERTKEY_AVAILABLE} \<noteq> {}
   \<and> (case insert_keyframe example_curve_ops example_rna_ops empty_action example_id None
              ''location'' 2 5 BEZT_KEYTYPE_KEYFRAME {INSERTKEY_AVAILABLE} of
         (combined_result, animated_id, tags) \<Rightarrow>
           (get_count combined_result SUCCESS,
            get_count combined_result CANNOT_CREATE_FCURVE,
            channel_key_times animated_id, tags)) =
      (3, 1, [(1, [1, 5]), (0, [5]), (2, [5])], [DEG_TAG_ACTION])"
proof -
  have h1: "BKE_id_is_editable example_id"
    by code_simp
  have h2: "RNA_path_resolve_property example_rna_ops ''location'' = Some ()"
    by code_simp
  have h3: "id_action_ensure empty_action example_id = (Some channel_1_action, example_id)"
    by (simp add: id_action_ensure_def BKE_animdata_ensure_id_def example_id_def)
  have h4: "BKE_animsys_nla_remap_keyframe_values example_rna_ops ()
        (get_keyframe_values example_rna_ops () (INSERTKEY_MATRIX \<in> {INSERTKEY_AVAILABLE})) 2 True =
      ([1, 2, 3], True, [True, True, True])"
    by code_simp
  have h5: "{INSERTKEY_AVAILABLE} \<inter> {INSERTKEY_REPLACE, INSERTKEY_AVAILABLE} \<noteq> {}"
    by simp
  have v: "(case (case spec_force_all_insert
                 (\<lambda>flag i st. insert_channel example_curve_ops example_rna_ops () None ''location''
                    (nla_time_remap example_rna_ops 5 True) [1, 2, 3] BEZT_KEYTYPE_KEYFRAME
                    flag i st)
                 {INSERTKEY_AVAILABLE} (filter (\<lambda>i. [True, True, True] ! i) [0..<length [1, 2, 3 :: real]])
                 (CombinedKeyingResult_init, 0, channel_1_action) of
            (combined_result, key_count, act') \<Rightarrow>
              (combined_result, store_action example_id act',
               if key_count > 0 then [DEG_TAG_ACTION] else [])) of
         (combined_result, animated_id, tags) \<Rightarrow>
           (get_count combined_result SUCCESS,
            get_count combined_result CANNOT_CREATE_FCURVE,
            channel_key_times animated_id, tags)) =
      (3, 1, [(1, [1, 5]), (0, [5]), (2, [5])], [DEG_TAG_ACTION])"
    by code_simp
  from insert_keyframe_force_all [OF h1 h2 h3 h4 h5, of example_curve_ops None 5
      BEZT_KEYTYPE_KEYFRAME]
  have "insert_keyframe example_curve_ops example_rna_ops empty_action example_id None
              ''location'' 2 5 BEZT_KEYTYPE_KEYFRAME {INSERTKEY_AVAILABLE} =
      (case spec_force_all_insert
                 (\<lambda>flag i st. insert_channel example_curve_ops example_rna_ops () None ''location''
                    (nla_time_remap example_rna_ops 5 True) [1, 2, 3] BEZT_KEYTYPE_KEYFRAME
                    flag i st)
                 {INSERTKEY_AVAILABLE} (filter (\<lambda>i. [True, True, True] ! i) [0..<length [1, 2, 3 :: real]])
                 (CombinedKeyingResult_init, 0, channel_1_action) of
            (combined_result, key_count, act') \<Rightarrow>
              (combined_result, store_action example_id act',
               if key_count > 0 then [DEG_TAG_ACTION] else []))"
    by (rule conjunct1)
  with v h1 h2 h3 h4 h5 show ?thesis
    by (simp only: simp_thms)
qed




section \<open>The batch insertion paths: lemmas\<close>

lemma add_add_commute: "add (add A r c) r' c' = add (add A r' c') r c"
proof (cases "int_of_result r = int_of_result r'")
  case True
  then show ?thesis
    by (cases "int_of_result r < length A") (simp_all add: add_def ac_simps list_update_beyond)
next
  case False
  then show ?thesis
    by (simp add: add_def list_update_swap)
qed

lemma map2_add_update:
  "map2 (+) (A[i := A ! i + c]) B = (map2 (+) A B)[i := map2 (+) A B ! i + (c::int)]"
proof (induction A arbitrary: i B)
  case Nil
  then show ?case by simp
next
  case (Cons a A)
  then show ?case by (cases B; cases i) simp_all
qed

lemma merge_add_left: "merge (add A r c) B = add (merge A B) r c"
  by (simp add: merge_def add_def map2_add_update)

lemma layered_values_add:
  "insert_key_layered_values lops layer binding rna_path p2p scene_frame rna_values key_settings
     flags indices (add cr k c) action =
   (case insert_key_layered_values lops layer binding rna_path p2p scene_frame rna_values
           key_settings flags indices cr action of
      Inl e \<Rightarrow> Inl e
    | Inr (cr', action') \<Rightarrow> Inr (add cr' k c, action'))"
proof (induction indices arbitrary: cr action)
  case Nil
  then show ?case by simp
next
  case (Cons i indices)
  show ?case
    by (simp add: Cons.IH add_add_commute [of cr k c] split: sum.splits prod.splits)
qed

lemma layered_paths_add:
  "insert_key_layered_paths lops rna layer binding scene_frame key_settings flags paths
     (add cr k c) action =
   (case insert_key_layered_paths lops rna layer binding scene_frame key_settings flags paths
           cr action of
      Inl e \<Rightarrow> Inl e
    | Inr (cr', action') \<Rightarrow> Inr (add cr' k c, action'))"
proof (induction paths arbitrary: cr action)
  case Nil
  then show ?case by simp
next
  case (Cons p paths)
  show ?case
    by (simp add: Cons.IH layered_values_add add_add_commute [of cr k c] Let_def
        split: sum.splits prod.splits option.splits)
qed

lemma layered_paths_append:
  "insert_key_layered_paths lops rna layer binding scene_frame key_settings flags (ps1 @ ps2)
     cr action =
   (case insert_key_layered_paths lops rna layer binding scene_frame key_settings flags ps1
           cr action of
      Inl e \<Rightarrow> Inl e
    | Inr (cr', action') \<Rightarrow>
        insert_key_layered_paths lops rna layer binding scene_frame key_settings flags ps2
          cr' action')"
proof (induction ps1 arbitrary: cr action)
  case Nil
  then show ?case by simp
next
  case (Cons p ps1)
  show ?case
    by (simp add: Cons.IH Let_def split: sum.splits prod.splits option.splits)
qed

lemma layered_paths_unresolved:
  assumes "RNA_path_resolve_property rna (rp_path p) = None"
  shows "insert_key_layered_paths lops rna layer binding scene_frame key_settings flags
           (ps1 @ p # ps2) cr action =
         (case insert_key_layered_paths lops rna layer binding scene_frame key_settings flags
                 (ps1 @ ps2) cr action of
            Inl e \<Rightarrow> Inl e
          | Inr (cr', action') \<Rightarrow> Inr (add cr' CANNOT_RESOLVE_PATH 1, action'))"
  using assms
  by (simp add: layered_paths_append [of _ _ _ _ _ _ _ ps1] layered_paths_add
      split: sum.splits prod.splits)

lemma rna_paths_add:
  "insert_key_rna_paths kinds ops rna ptr nla_frame flags key_type paths (add cr k c) action =
   (case insert_key_rna_paths kinds ops rna ptr nla_frame flags key_type paths cr action of
      Inl e \<Rightarrow> Inl e
    | Inr (cr', action') \<Rightarrow> Inr (add cr' k c, action'))"
proof (induction paths arbitrary: cr action)
  case Nil
  then show ?case by simp
next
  case (Cons p paths)
  show ?case
    by (simp add: Cons.IH merge_add_left add_add_commute [of cr k c] Let_def
        split: sum.splits prod.splits option.splits)
qed

lemma rna_paths_append:
  "insert_key_rna_paths kinds ops rna ptr nla_frame flags key_type (ps1 @ ps2) cr action =
   (case insert_key_rna_paths kinds ops rna ptr nla_frame flags key_type ps1 cr action of
      Inl e \<Rightarrow> Inl e
    | Inr (cr', action') \<Rightarrow>
        insert_key_rna_paths kinds ops rna ptr nla_frame flags key_type ps2 cr' action')"
proof (induction ps1 arbitrary: cr action)
  case Nil
  then show ?case by simp
next
  case (Cons p ps1)
  show ?case
    by (simp add: Cons.IH Let_def split: sum.splits prod.splits option.splits)
qed

lemma rna_paths_unresolved:
  assumes "RNA_path_resolve_property rna (rp_path p) = None"
  shows "insert_key_rna_paths kinds ops rna ptr nla_frame flags key_type (ps1 @ p # ps2) cr
           action =
         (case insert_key_rna_paths kinds ops rna ptr nla_frame flags key_type (ps1 @ ps2) cr
                 action of
            Inl e \<Rightarrow> Inl e
          | Inr (cr', action') \<Rightarrow> Inr (add cr' CANNOT_RESOLVE_PATH 1, action'))"
  using assms
  by (simp add: rna_paths_append [of _ _ _ _ _ _ _ ps1] rna_paths_add
      split: sum.splits prod.splits)

lemma layered_action_unresolved:
  assumes "RNA_path_resolve_property rna (rp_path p) = None"
  shows "insert_key_layered_action kinds lops rna action binding_handle animated_id
           (ps1 @ p # ps2) scene_frame key_settings flags =
         (case insert_key_layered_action kinds lops rna action binding_handle animated_id
                 (ps1 @ ps2) scene_frame key_settings flags of
            Inl e \<Rightarrow> Inl e
          | Inr (cr, action', animated_id', tags) \<Rightarrow>
              Inr (add cr CANNOT_RESOLVE_PATH 1, action', animated_id', tags))"
  by (simp add: insert_key_layered_action_def layered_paths_unresolved [OF assms] Let_def
      split: sum.splits prod.splits option.splits)

lemma insert_key_rna_unresolved:
  assumes "RNA_path_resolve_property rna (rp_path p) = None"
    and "id_animatable animated_id"
  shows "insert_key_rna kinds ops rna lops new_action ptr animated_id (ps1 @ p # ps2)
           scene_frame flags key_type =
         (case insert_key_rna kinds ops rna lops new_action ptr animated_id (ps1 @ ps2)
                 scene_frame flags key_type of
            Inl e \<Rightarrow> Inl e
          | Inr (cr, animated_id', tags) \<Rightarrow>
              Inr (add cr CANNOT_RESOLVE_PATH 1, animated_id', tags))"
proof -
  from assms(2) have "fst (BKE_animdata_ensure_id animated_id) \<noteq> None"
    by (simp add: BKE_animdata_ensure_id_def Let_def split: option.splits)
  then show ?thesis
    by (auto simp: insert_key_rna_def layered_action_unresolved [OF assms(1)]
        rna_paths_unresolved [OF assms(1)] Let_def
        split: sum.splits prod.splits option.splits)
qed

lemma layered_tags:
  assumes "insert_key_layered_action kinds lops rna action binding_handle animated_id rna_paths
      scene_frame key_settings flags = Inr (cr, action', animated_id', tags)"
  shows "tags = [DEG_TAG_ACTION]"
  using assms
  by (auto simp: insert_key_layered_action_def Let_def
      split: sum.splits prod.splits option.splits if_splits)


section \<open>Claims about the batch paths and about keying a given curve\<close>

text \<open>
  Claim C4, as the spec states it: in \<open>insert_key_layered_action\<close> the dependency
  system is notified once at the end of the call, and only if a key was written during
  the call. The second half does not hold: the call below requests one path, which does
  not resolve; no key is written, the layered data of the action stays empty, and the
  action is tagged all the same.
\<close>

theorem layered_notifies_without_key:
  "layered_outcome
     (insert_key_layered_action example_action_kinds example_layered_ops example_rna_ops empty_action 0 layered_id
        [unresolved_path] 5 example_key_settings {}) =
   Some (0, [], [DEG_TAG_ACTION])"
  by code_simp

text \<open>
  Claim C4, amended: every call of \<open>insert_key_layered_action\<close> that returns has
  notified the dependency system exactly once, by the tag of the action at the end of the
  call, whether or not a key was written.
\<close>

theorem layered_notifies_once:
  assumes "insert_key_layered_action kinds lops rna action binding_handle animated_id rna_paths
      scene_frame key_settings flags = Inr (cr, action', animated_id', tags)"
  shows "tags = [DEG_TAG_ACTION]"
  using assms by (rule layered_tags)

theorem layered_notifies_once_witness:
  "layered_outcome
     (insert_key_layered_action example_action_kinds example_layered_ops example_rna_ops empty_action 0 layered_id
        [location_path] 5 example_key_settings {}) =
   Some (3, [(''location'', 0, 5, 1), (''location'', 1, 5, 2), (''location'', 2, 5, 3)],
         [DEG_TAG_ACTION])"
proof -
  let ?call = "insert_key_layered_action example_action_kinds example_layered_ops example_rna_ops empty_action 0
      layered_id [location_path] 5 example_key_settings {}"
  have v: "map_option (\<lambda>(n, keys, tags). (n, keys)) (layered_outcome ?call) =
      Some (3, [(''location'', 0, 5, 1), (''location'', 1, 5, 2), (''location'', 2, 5, 3)])"
    by code_simp
  then obtain cr action' animated_id' tags where r: "?call = Inr (cr, action', animated_id', tags)"
    by (cases ?call) (auto simp: layered_outcome_def)
  from layered_notifies_once [OF r] have "tags = [DEG_TAG_ACTION]" .
  with v r show ?thesis
    by (simp add: layered_outcome_def)
qed

text \<open>
  Claim C5. In both batch paths a requested path whose property does not resolve adds
  exactly one \<open>CANNOT_RESOLVE_PATH\<close> to the aggregate and nothing else: the call with
  the path in the batch returns what the call without it returns, with that one outcome
  added; the outcomes of the other paths, the action and the tags are the same. This is
  stated for \<open>insert_key_layered_action\<close> and for \<open>insert_key_rna\<close>, whose two
  branches are the layered and the legacy path, on an entity that can be animated.
\<close>

theorem unresolved_path_not_fatal:
  assumes "RNA_path_resolve_property rna (rp_path p) = None"
    and "id_animatable animated_id"
  shows "insert_key_layered_action kinds lops rna action binding_handle animated_id (paths_before @ p # paths_after)
           scene_frame key_settings flags =
         (case insert_key_layered_action kinds lops rna action binding_handle animated_id (paths_before @ paths_after)
                 scene_frame key_settings flags of
            Inl e \<Rightarrow> Inl e
          | Inr (cr, action', animated_id', tags) \<Rightarrow>
              Inr (add cr CANNOT_RESOLVE_PATH 1, action', animated_id', tags))
       \<and> insert_key_rna kinds ops rna lops new_action ptr animated_id (paths_before @ p # paths_after) scene_frame flags
           key_type =
         (case insert_key_rna kinds ops rna lops new_action ptr animated_id (paths_before @ paths_after) scene_frame flags
                 key_type of
            Inl e \<Rightarrow> Inl e
          | Inr (cr, animated_id', tags) \<Rightarrow>
              Inr (add cr CANNOT_RESOLVE_PATH 1, animated_id', tags))"
proof (rule conjI)
  show "insert_key_layered_action kinds lops rna action binding_handle animated_id (paths_before @ p # paths_after)
           scene_frame key_settings flags =
         (case insert_key_layered_action kinds lops rna action binding_handle animated_id (paths_before @ paths_after)
                 scene_frame key_settings flags of
            Inl e \<Rightarrow> Inl e
          | Inr (cr, action', animated_id', tags) \<Rightarrow>
              Inr (add cr CANNOT_RESOLVE_PATH 1, action', animated_id', tags))"
    by (rule layered_action_unresolved [OF assms(1)])
  show "insert_key_rna kinds ops rna lops new_action ptr animated_id (paths_before @ p # paths_after) scene_frame flags
           key_type =
         (case insert_key_rna kinds ops rna lops new_action ptr animated_id (paths_before @ paths_after) scene_frame flags
                 key_type of
            Inl e \<Rightarrow> Inl e
          | Inr (cr, animated_id', tags) \<Rightarrow>
              Inr (add cr CANNOT_RESOLVE_PATH 1, animated_id', tags))"
    by (rule insert_key_rna_unresolved [OF assms])
qed

theorem unresolved_path_not_fatal_witness:
  "RNA_path_resolve_property example_rna_ops (rp_path unresolved_path) = None
   \<and> id_animatable layered_id
   \<and> rna_outcome (insert_key_rna example_action_kinds example_curve_ops example_rna_ops
        example_layered_ops empty_action example_ptr layered_id [location_path, location_path] 5 {} BEZT_KEYTYPE_KEYFRAME)
      = Some [6, 0, 0, 0, 0, 0, 0, 0, 0, 0, 0, 0]
   \<and> rna_outcome (insert_key_rna example_action_kinds example_curve_ops example_rna_ops
        example_layered_ops empty_action example_ptr layered_id [location_path, unresolved_path, location_path] 5 {}
        BEZT_KEYTYPE_KEYFRAME)
      = Some [6, 0, 0, 0, 0, 0, 0, 0, 1, 0, 0, 0]
   \<and> rna_outcome (insert_key_rna example_action_kinds example_curve_ops example_rna_ops
        (example_layered_ops\<lparr>use_animation_baklava := False\<rparr>)
        empty_action example_ptr layered_id [location_path, unresolved_path, location_path] 5 {}
        BEZT_KEYTYPE_KEYFRAME)
      = Some [6, 0, 0, 0, 0, 0, 0, 0, 1, 0, 0, 0]"
proof -
  let ?legacy_ops = "example_layered_ops\<lparr>use_animation_baklava := False\<rparr>"
  have h1: "RNA_path_resolve_property example_rna_ops (rp_path unresolved_path) = None"
    by code_simp
  have h2: "id_animatable layered_id"
    by code_simp
  have v1: "rna_outcome (insert_key_rna example_action_kinds example_curve_ops example_rna_ops
        example_layered_ops empty_action example_ptr layered_id ([location_path] @ [location_path]) 5 {}
        BEZT_KEYTYPE_KEYFRAME) = Some [6, 0, 0, 0, 0, 0, 0, 0, 0, 0, 0, 0]"
    by code_simp
  have v2: "rna_outcome (insert_key_rna example_action_kinds example_curve_ops example_rna_ops
        ?legacy_ops empty_action example_ptr layered_id ([location_path] @ [location_path]) 5 {}
        BEZT_KEYTYPE_KEYFRAME) = Some [6, 0, 0, 0, 0, 0, 0, 0, 0, 0, 0, 0]"
    by code_simp
  have a: "add [6, 0, 0, 0, 0, 0, 0, 0, 0, 0, 0, 0] CANNOT_RESOLVE_PATH 1 =
      [6, 0, 0, 0, 0, 0, 0, 0, 1, 0, 0, 0]"
    by code_simp
  note w1 = unresolved_path_not_fatal [OF h1 h2, where kinds = example_action_kinds and ops = example_curve_ops
      and ptr = example_ptr and lops = example_layered_ops and new_action = empty_action
      and paths_before = "[location_path]" and paths_after = "[location_path]" and scene_frame = 5
      and flags = "{}" and key_type = BEZT_KEYTYPE_KEYFRAME, THEN conjunct2]
  note w2 = unresolved_path_not_fatal [OF h1 h2, where kinds = example_action_kinds and ops = example_curve_ops
      and ptr = example_ptr and lops = ?legacy_ops and new_action = empty_action
      and paths_before = "[location_path]" and paths_after = "[location_path]" and scene_frame = 5
      and flags = "{}" and key_type = BEZT_KEYTYPE_KEYFRAME, THEN conjunct2]
  from w1 v1 a have r1: "rna_outcome (insert_key_rna example_action_kinds example_curve_ops
        example_rna_ops example_layered_ops empty_action example_ptr layered_id
        [location_path, unresolved_path, location_path] 5 {} BEZT_KEYTYPE_KEYFRAME)
      = Some [6, 0, 0, 0, 0, 0, 0, 0, 1, 0, 0, 0]"
    by (auto simp: rna_outcome_def split: sum.splits)
  from w2 v2 a have r2: "rna_outcome (insert_key_rna example_action_kinds example_curve_ops
        example_rna_ops ?legacy_ops empty_action example_ptr layered_id
        [location_path, unresolved_path, location_path] 5 {} BEZT_KEYTYPE_KEYFRAME)
      = Some [6, 0, 0, 0, 0, 0, 0, 0, 1, 0, 0, 0]"
    by (auto simp: rna_outcome_def split: sum.splits)
  from h1 h2 v1 r1 r2 show ?thesis by simp
qed

text \<open>
  Claim C8 says that the read of the bit vector of the remapped channels at the array
  index of the curve, in \<open>insert_keyframe_direct\<close>, is always within bounds. The code
  checks the index before it reads \<open>values[index]\<close> and does not check it before it
  reads \<open>successful_remaps[index]\<close>: for a curve of channel 3 of a property with three
  values the read is outside of the bit vector.
\<close>

theorem insert_keyframe_direct_out_of_bounds:
  "insert_keyframe_direct example_curve_ops example_rna_ops [] example_ptr (Some ())
     (Some channel_3_curve) 5 BEZT_KEYTYPE_KEYFRAME {} = Inl Index_out_of_bounds"
  by code_simp

end
